theory Spec2Isabelle
  imports Main "HOL-Library.Multiset"
begin

section \<open>Data model\<close>

text \<open>
  The embedding follows \<^verbatim>\<open>backend/server.go\<close> and \<^verbatim>\<open>backend/store.go\<close>.
  A Go \<^verbatim>\<open>error\<close> is represented by its message (\<^verbatim>\<open>err.Error()\<close>); a Go
  \<^verbatim>\<open>string\<close> is a byte list, so the Chinese literals of the source appear as their
  UTF-8 bytes. Struct fields that no modelled function reads (time of the last update,
  URL, file name, file size, the metadata bag of a Source) are left out of the records.
  The time of creation is kept as the \<^verbatim>\<open>created_at\<close> column stores it: in whole
  seconds (\<^verbatim>\<open>now.Unix()\<close>).
\<close>

type_synonym error = string

record Notebook =
  nb_ID :: string
  nb_UserID :: string

record Source =
  src_ID :: string
  src_NotebookID :: string
  src_Name :: string
  src_Type :: string
  src_Content :: string
  src_ChunkCount :: int
  src_CreatedAt :: int

text \<open>
  \<^verbatim>\<open>map[string]interface{}\<close>: the values stored by \<^verbatim>\<open>handleTransform\<close> are strings
  (\<^verbatim>\<open>length\<close>, \<^verbatim>\<open>format\<close>, \<^verbatim>\<open>image_error\<close>, \<^verbatim>\<open>image_url\<close>) and one
  \<^verbatim>\<open>[]string\<close> (\<^verbatim>\<open>slides\<close>). A nil slice and an empty slice are both the
  empty list.
\<close>

datatype meta_value = MString string | MStrings "string list"

type_synonym metadata = "string \<rightharpoonup> meta_value"

record Note =
  note_ID :: string
  note_NotebookID :: string
  note_Title :: string
  note_Content :: string
  note_Type :: string
  note_SourceIDs :: "string list"
  note_Metadata :: metadata
  note_CreatedAt :: int

text \<open>
  \<^verbatim>\<open>TransformationRequest\<close> and the slide type are declared outside the files at hand;
  the fields are the ones \<^verbatim>\<open>handleTransform\<close> reads.
\<close>

record TransformationRequest =
  req_Type :: string
  req_Prompt :: string
  req_SourceIDs :: "string list"
  req_Length :: string
  req_Format :: string

record Slide =
  slide_Style :: string
  slide_Content :: string

text \<open>One stored chunk of the vector index, tagged with notebook id and source name.\<close>

record Document =
  doc_NotebookID :: string
  doc_SourceName :: string
  doc_Text :: string

text \<open>The \<^verbatim>\<open>golog.Errorf\<close> lines of the modelled functions, by format string.\<close>

datatype logline =
    FailedToLoadSource string error
  | FailedToLoadVectorIndex error
  | FailedToGenerateInfographicImage error
  | PptTooManySlides nat
  | FailedToGenerateSlide nat error
  | FailedToLogTransformationActivity error
  | FailedToCreateInsightSource error
  | FailedToIngestInsightText error

text \<open>
  Calls to the collaborators (store, vector store, agent, image provider) and error log
  lines, in the order in which the server issues them.
\<close>

datatype event =
    CallStoreListSources string
  | CallListSources string
  | CallListNotes string
  | CallGetSource string
  | CallGetNotebook string
  | CallDeleteSource string
  | CallIngestText string string string
  | CallGenerateTransformation TransformationRequest "Source list"
  | CallGenerateImage string string string
  | CallCreateNote Note
  | CallCreateSource Source
  | CallUpdateSourceChunkCount string int
  | CallLogActivity string string string
  | Errorf logline

text \<open>
  The \<^verbatim>\<open>Server\<close> struct together with what its collaborators hold: the rows of the
  \<^verbatim>\<open>notebooks\<close>, \<^verbatim>\<open>sources\<close> and \<^verbatim>\<open>notes\<close> tables (the row inserted last in
  front; a listing puts them in its own order), the documents of the vector store, the
  \<^verbatim>\<open>loadedNotebooks\<close> map (a missing key reads \<^verbatim>\<open>false\<close>), and the log of calls.
  \<^verbatim>\<open>splitter\<close> is the text splitter of the vector store, which is not among the files
  at hand and is a parameter of the model.
\<close>

record Server =
  cfg_AllowMultipleNotesOfSameType :: bool
  splitter :: "string \<Rightarrow> string list"
  db_notebooks :: "Notebook list"
  db_sources :: "Source list"
  db_notes :: "Note list"
  vectorStore :: "Document list"
  loadedNotebooks :: "string \<Rightarrow> bool"
  calls :: "event list"

definition record_call :: "event \<Rightarrow> Server \<Rightarrow> Server" where
  "record_call e s = s\<lparr>calls := calls s @ [e]\<rparr>"

section \<open>Store and vector store\<close>

text \<open>
  Every store method runs one SQL statement and returns its error. Whether the statement
  fails is decided outside the program, so each model takes the outcome as its first
  argument (\<open>Some err\<close>: the statement fails with \<open>err\<close>).
\<close>

text \<open>The Unix seconds of Go's zero \<^verbatim>\<open>time.Time\<close>, the stamp of a struct not yet stored.\<close>

definition zeroTime :: int where
  "zeroTime = - 62135596800"

text \<open>
  \<^verbatim>\<open>ORDER BY created_at DESC\<close>: the rows by falling stamp. The stamps are whole seconds,
  so rows can share one. SQL leaves the order of such rows open; they are taken in the
  order of their insertion, the earlier row first, as SQLite yields them. \<open>rows\<close> is
  the table, the row inserted last in front.
\<close>

definition orderByCreatedAtDesc :: "('a \<Rightarrow> int) \<Rightarrow> 'a list \<Rightarrow> 'a list" where
  "orderByCreatedAtDesc created_at rows = sort_key (\<lambda>row. - created_at row) (rev rows)"

text \<open>Store.go, lines 485-519.\<close>

definition Store_ListSources ::
  "error option \<Rightarrow> string \<Rightarrow> Server \<Rightarrow> (error + Source list) \<times> Server" where
  "Store_ListSources outcome notebookID s =
     (let s' = record_call (CallStoreListSources notebookID) s in
      case outcome of
        Some err \<Rightarrow> (Inl err, s')
      | None \<Rightarrow>
          (Inr (orderByCreatedAtDesc src_CreatedAt
                  (filter (\<lambda>src. src_NotebookID src = notebookID) (db_sources s))), s'))"

text \<open>
  Modelled from the spec: \<^verbatim>\<open>VectorStore.IngestText\<close> is not among the files at hand.
  Section 4.1: the content is split into chunks, each chunk is stored tagged with
  (notebook id, source name), and the number of chunks is returned; a failure surfaces an
  error (the callers test it) and stores nothing.
\<close>

definition IngestText ::
  "error option \<Rightarrow> string \<Rightarrow> string \<Rightarrow> string \<Rightarrow> Server \<Rightarrow> (error + int) \<times> Server" where
  "IngestText outcome notebookID sourceName content s =
     (let s' = record_call (CallIngestText notebookID sourceName content) s in
      case outcome of
        Some err \<Rightarrow> (Inl err, s')
      | None \<Rightarrow>
          (let docs = map (\<lambda>c. \<lparr>doc_NotebookID = notebookID, doc_SourceName = sourceName,
                                  doc_Text = c\<rparr>) (splitter s content)
           in (Inr (int (length docs)), s'\<lparr>vectorStore := vectorStore s' @ docs\<rparr>)))"

section \<open>Index lifecycle: loadNotebookVectorIndex\<close>

text \<open>
  What the outside world answers during one call of \<^verbatim>\<open>loadNotebookVectorIndex\<close>:
  whether \<^verbatim>\<open>Store.ListSources\<close> fails, and whether the \<^verbatim>\<open>IngestText\<close> call for the
  source at position \<open>k\<close> of the listed sources fails.
\<close>

record LoadEnv =
  load_ListSources :: "error option"
  load_IngestText :: "nat \<Rightarrow> error option"

text \<open>
  The loop of lines 188-194: sources with empty content are skipped, a failed ingestion is
  logged and the loop goes on. \<open>k\<close> is the position of the head of the list in the
  listed sources.
\<close>

fun ingestSources ::
  "(nat \<Rightarrow> error option) \<Rightarrow> string \<Rightarrow> nat \<Rightarrow> Source list \<Rightarrow> Server \<Rightarrow> Server" where
  "ingestSources outcome notebookID k [] s = s"
| "ingestSources outcome notebookID k (src # rest) s =
     (if src_Content src \<noteq> []
      then (case IngestText (outcome k) notebookID (src_Name src) (src_Content src) s of
              (Inl err, s') \<Rightarrow>
                ingestSources outcome notebookID (Suc k) rest
                  (record_call (Errorf (FailedToLoadSource (src_Name src) err)) s')
            | (Inr _, s') \<Rightarrow> ingestSources outcome notebookID (Suc k) rest s')
      else ingestSources outcome notebookID (Suc k) rest s)"

text \<open>
  Lines 172-201. The mutex is held from entry to return, so a call is one atomic step on
  the server state. The result is the returned \<^verbatim>\<open>error\<close> (\<open>None\<close> for \<^verbatim>\<open>nil\<close>).
  The \<^verbatim>\<open>GetStats\<close> call only feeds an information log line and is not modelled.
\<close>

definition loadNotebookVectorIndex ::
  "LoadEnv \<Rightarrow> string \<Rightarrow> Server \<Rightarrow> error option \<times> Server" where
  "loadNotebookVectorIndex env notebookID s =
     (if loadedNotebooks s notebookID then (None, s)
      else case Store_ListSources (load_ListSources env) notebookID s of
             (Inl err, s1) \<Rightarrow> (Some (''failed to list sources: '' @ err), s1)
           | (Inr srcs, s1) \<Rightarrow>
               (let s2 = ingestSources (load_IngestText env) notebookID 0 srcs s1
                in (None, s2\<lparr>loadedNotebooks := (loadedNotebooks s2)(notebookID := True)\<rparr>)))"

text \<open>
  Calls of \<^verbatim>\<open>loadNotebookVectorIndex\<close> issued by concurrent requests are serialised by
  the mutex: the list gives the order in which they take the lock.
\<close>

fun runLoads :: "(string \<times> LoadEnv) list \<Rightarrow> Server \<Rightarrow> Server" where
  "runLoads [] s = s"
| "runLoads ((notebookID, env) # cs) s =
     runLoads cs (snd (loadNotebookVectorIndex env notebookID s))"

section \<open>The store methods used by the handlers\<close>

text \<open>
  Modelled from the spec: the handlers reach the store through \<^verbatim>\<open>CachedStore\<close>,
  which is not among the files at hand. It embeds \<^verbatim>\<open>Store\<close>; section 6 of the spec
  names the storage calls of the core and takes them as durable, so each method is
  modelled as the method of \<^verbatim>\<open>Store\<close> in \<^verbatim>\<open>backend/store.go\<close>: a listing
  answers from the table as it is.
\<close>

definition ListSources ::
  "error option \<Rightarrow> string \<Rightarrow> Server \<Rightarrow> (error + Source list) \<times> Server" where
  "ListSources outcome notebookID s =
     (let s' = record_call (CallListSources notebookID) s in
      case outcome of
        Some err \<Rightarrow> (Inl err, s')
      | None \<Rightarrow>
          (Inr (orderByCreatedAtDesc src_CreatedAt
                  (filter (\<lambda>src. src_NotebookID src = notebookID) (db_sources s))), s'))"

definition ListNotes ::
  "error option \<Rightarrow> string \<Rightarrow> Server \<Rightarrow> (error + Note list) \<times> Server" where
  "ListNotes outcome notebookID s =
     (let s' = record_call (CallListNotes notebookID) s in
      case outcome of
        Some err \<Rightarrow> (Inl err, s')
      | None \<Rightarrow>
          (Inr (orderByCreatedAtDesc note_CreatedAt
                  (filter (\<lambda>n. note_NotebookID n = notebookID) (db_notes s))), s'))"

text \<open>
  \<^verbatim>\<open>CreateNote\<close> and \<^verbatim>\<open>CreateSource\<close> first write a fresh UUID and the time into
  the struct they are handed (\<open>newID\<close> and \<open>now\<close>, drawn outside the program) and
  then insert the row. Where the row comes in a listing is decided by its stamp, not by
  its place in the table.
\<close>

definition CreateNote ::
  "error option \<Rightarrow> string \<Rightarrow> int \<Rightarrow> Note \<Rightarrow> Server \<Rightarrow>
     (error option \<times> Note) \<times> Server" where
  "CreateNote outcome newID now note s =
     (let note' = note\<lparr>note_ID := newID, note_CreatedAt := now\<rparr>;
          s' = record_call (CallCreateNote note) s in
      case outcome of
        Some err \<Rightarrow> ((Some err, note'), s')
      | None \<Rightarrow> ((None, note'), s'\<lparr>db_notes := note' # db_notes s'\<rparr>))"

definition CreateSource ::
  "error option \<Rightarrow> string \<Rightarrow> int \<Rightarrow> Source \<Rightarrow> Server \<Rightarrow>
     (error option \<times> Source) \<times> Server" where
  "CreateSource outcome newID now source s =
     (let source' = source\<lparr>src_ID := newID, src_CreatedAt := now\<rparr>;
          s' = record_call (CallCreateSource source) s in
      case outcome of
        Some err \<Rightarrow> ((Some err, source'), s')
      | None \<Rightarrow> ((None, source'), s'\<lparr>db_sources := source' # db_sources s'\<rparr>))"

definition UpdateSourceChunkCount ::
  "error option \<Rightarrow> string \<Rightarrow> int \<Rightarrow> Server \<Rightarrow> error option \<times> Server" where
  "UpdateSourceChunkCount outcome sourceID chunkCount s =
     (let s' = record_call (CallUpdateSourceChunkCount sourceID chunkCount) s in
      case outcome of
        Some err \<Rightarrow> (Some err, s')
      | None \<Rightarrow>
          (None, s'\<lparr>db_sources :=
                     map (\<lambda>src. if src_ID src = sourceID
                                 then src\<lparr>src_ChunkCount := chunkCount\<rparr> else src)
                       (db_sources s')\<rparr>))"

text \<open>
  \<^verbatim>\<open>GetSource\<close> and \<^verbatim>\<open>GetNotebook\<close> select one row by id; no row is the error
  \<^verbatim>\<open>"source not found"\<close> or \<^verbatim>\<open>"notebook not found"\<close>.
\<close>

definition GetSource ::
  "error option \<Rightarrow> string \<Rightarrow> Server \<Rightarrow> (error + Source) \<times> Server" where
  "GetSource outcome sourceID s =
     (let s' = record_call (CallGetSource sourceID) s in
      case outcome of
        Some err \<Rightarrow> (Inl err, s')
      | None \<Rightarrow>
          (case find (\<lambda>src. src_ID src = sourceID) (db_sources s) of
             None \<Rightarrow> (Inl ''source not found'', s')
           | Some src \<Rightarrow> (Inr src, s')))"

definition GetNotebook ::
  "error option \<Rightarrow> string \<Rightarrow> Server \<Rightarrow> (error + Notebook) \<times> Server" where
  "GetNotebook outcome notebookID s =
     (let s' = record_call (CallGetNotebook notebookID) s in
      case outcome of
        Some err \<Rightarrow> (Inl err, s')
      | None \<Rightarrow>
          (case find (\<lambda>nb. nb_ID nb = notebookID) (db_notebooks s) of
             None \<Rightarrow> (Inl ''notebook not found'', s')
           | Some nb \<Rightarrow> (Inr nb, s')))"

text \<open>\<^verbatim>\<open>DELETE FROM sources WHERE id = ?\<close> (store.go, lines 522-525).\<close>

definition DeleteSource :: "error option \<Rightarrow> string \<Rightarrow> Server \<Rightarrow> error option \<times> Server" where
  "DeleteSource outcome sourceID s =
     (let s' = record_call (CallDeleteSource sourceID) s in
      case outcome of
        Some err \<Rightarrow> (Some err, s')
      | None \<Rightarrow>
          (None, s'\<lparr>db_sources := filter (\<lambda>src. src_ID src \<noteq> sourceID) (db_sources s')\<rparr>))"

text \<open>
  \<^verbatim>\<open>LogActivity\<close> inserts into the \<^verbatim>\<open>activity_logs\<close> table, which no modelled function
  reads; the call is recorded with user id, action and resource id.
\<close>

definition LogActivity ::
  "error option \<Rightarrow> string \<Rightarrow> string \<Rightarrow> string \<Rightarrow> Server \<Rightarrow> error option \<times> Server" where
  "LogActivity outcome userID action resourceID s =
     (outcome, record_call (CallLogActivity userID action resourceID) s)"

section \<open>HTTP responses\<close>

datatype body = ErrorResponse string | NoteJSON Note | NoBody

datatype response = Response nat body

fun status :: "response \<Rightarrow> nat" where
  "status (Response code b) = code"

section \<open>Deleting a source: handleDeleteSource\<close>

record DeleteEnv =
  del_GetSource :: "error option"
  del_GetNotebook :: "error option"
  del_DeleteSource :: "error option"

text \<open>Lines 495-504.\<close>

definition checkNotebookAccess ::
  "error option \<Rightarrow> string \<Rightarrow> string \<Rightarrow> Server \<Rightarrow> error option \<times> Server" where
  "checkNotebookAccess outcome notebookID userID s =
     (case GetNotebook outcome notebookID s of
        (Inl err, s') \<Rightarrow> (Some ''notebook not found'', s')
      | (Inr notebook, s') \<Rightarrow>
          (if nb_UserID notebook \<noteq> [] \<and> nb_UserID notebook \<noteq> userID
           then (Some ''access denied'', s')
           else (None, s')))"

text \<open>Lines 470-493.\<close>

definition handleDeleteSource ::
  "DeleteEnv \<Rightarrow> string \<Rightarrow> string \<Rightarrow> Server \<Rightarrow> response \<times> Server" where
  "handleDeleteSource env userID sourceID s =
     (case GetSource (del_GetSource env) sourceID s of
        (Inl err, s1) \<Rightarrow> (Response 404 (ErrorResponse ''Source not found''), s1)
      | (Inr source, s1) \<Rightarrow>
          (case checkNotebookAccess (del_GetNotebook env) (src_NotebookID source) userID s1 of
             (Some err, s2) \<Rightarrow> (Response 403 (ErrorResponse err), s2)
           | (None, s2) \<Rightarrow>
               (case DeleteSource (del_DeleteSource env) sourceID s2 of
                  (Some err, s3) \<Rightarrow>
                    (Response 500 (ErrorResponse ''Failed to delete source''), s3)
                | (None, s3) \<Rightarrow> (Response 204 NoBody, s3))))"

section \<open>Transformations: handleTransform\<close>

subsection \<open>String constants of the handler\<close>

text \<open>The conflict message of line 719 (Chinese: a note of the same type already exists).\<close>

definition msg_same_type_exists :: string where
  "msg_same_type_exists =
     [CHR 0xE8, CHR 0xAF, CHR 0xA5, CHR 0xE7, CHR 0xAC, CHR 0x94, CHR 0xE8, CHR 0xAE,
      CHR 0xB0, CHR 0xE6, CHR 0x9C, CHR 0xAC, CHR 0xE5, CHR 0xB7, CHR 0xB2, CHR 0xE5,
      CHR 0xAD, CHR 0x98, CHR 0xE5, CHR 0x9C, CHR 0xA8, CHR 0xE7, CHR 0x9B, CHR 0xB8,
      CHR 0xE5, CHR 0x90, CHR 0x8C, CHR 0xE7, CHR 0xB1, CHR 0xBB, CHR 0xE5, CHR 0x9E,
      CHR 0x8B, CHR 0xE7, CHR 0x9A, CHR 0x84, CHR 0xE7, CHR 0xAC, CHR 0x94, CHR 0xE8,
      CHR 0xAE, CHR 0xB0, CHR 0xEF, CHR 0xBC, CHR 0x8C, CHR 0xE4, CHR 0xB8, CHR 0x8D,
      CHR 0xE5, CHR 0x85, CHR 0x81, CHR 0xE8, CHR 0xAE, CHR 0xB8, CHR 0xE5, CHR 0x88,
      CHR 0x9B, CHR 0xE5, CHR 0xBB, CHR 0xBA, CHR 0xE9, CHR 0x87, CHR 0x8D, CHR 0xE5,
      CHR 0xA4, CHR 0x8D, CHR 0xE7, CHR 0xB1, CHR 0xBB, CHR 0xE5, CHR 0x9E, CHR 0x8B]"

text \<open>
  The notice appended to every image prompt (Chinese: always answer in Chinese, whatever
  the language of the sources), lines 772 and 799.
\<close>

definition use_chinese_notice :: string where
  "use_chinese_notice =
     ''**'' @ [CHR 0xE6, CHR 0xB3, CHR 0xA8, CHR 0xE6, CHR 0x84, CHR 0x8F, CHR 0xEF,
      CHR 0xBC, CHR 0x9A, CHR 0xE6, CHR 0x97, CHR 0xA0, CHR 0xE8, CHR 0xAE, CHR 0xBA,
      CHR 0xE6, CHR 0x9D, CHR 0xA5, CHR 0xE6, CHR 0xBA, CHR 0x90, CHR 0xE6, CHR 0x98,
      CHR 0xAF, CHR 0xE4, CHR 0xBB, CHR 0x80, CHR 0xE4, CHR 0xB9, CHR 0x88, CHR 0xE8,
      CHR 0xAF, CHR 0xAD, CHR 0xE8, CHR 0xA8, CHR 0x80, CHR 0xEF, CHR 0xBC, CHR 0x8C,
      CHR 0xE8, CHR 0xAF, CHR 0xB7, CHR 0xE5, CHR 0x8A, CHR 0xA1, CHR 0xE5, CHR 0xBF,
      CHR 0x85, CHR 0xE4, CHR 0xBD, CHR 0xBF, CHR 0xE7, CHR 0x94, CHR 0xA8, CHR 0xE4,
      CHR 0xB8, CHR 0xAD, CHR 0xE6, CHR 0x96, CHR 0x87] @ ''**''"

text \<open>
  The text stored under \<^verbatim>\<open>image_error\<close> at line 790 (Chinese: the slide count exceeds
  the limit of 20 pages, image generation was stopped). The literal names 20 pages; the
  test of line 788 is \<^verbatim>\<open>len(slides) > 10\<close>.
\<close>

definition msg_ppt_page_limit :: string where
  "msg_ppt_page_limit =
     ''PPT'' @ [CHR 0xE9, CHR 0xA1, CHR 0xB5, CHR 0xE6, CHR 0x95, CHR 0xB0, CHR 0xE8,
      CHR 0xB6, CHR 0x85, CHR 0xE8, CHR 0xBF, CHR 0x87] @ ''20'' @ [CHR 0xE9, CHR 0xA1,
      CHR 0xB5, CHR 0xE4, CHR 0xB8, CHR 0x8A, CHR 0xE9, CHR 0x99, CHR 0x90, CHR 0xEF,
      CHR 0xBC, CHR 0x8C, CHR 0xE5, CHR 0xB7, CHR 0xB2, CHR 0xE5, CHR 0x81, CHR 0x9C,
      CHR 0xE6, CHR 0xAD, CHR 0xA2, CHR 0xE7, CHR 0x94, CHR 0x9F, CHR 0xE6, CHR 0x88,
      CHR 0x90, CHR 0xE5, CHR 0x9B, CHR 0xBE, CHR 0xE7, CHR 0x89, CHR 0x87]"

text \<open>The name of the source injected by an insight transformation (line 851).\<close>

definition insight_source_name :: string where
  "insight_source_name =
     [CHR 0xE6, CHR 0xB4, CHR 0x9E, CHR 0xE5, CHR 0xAF, CHR 0x9F, CHR 0xE6, CHR 0x8A,
      CHR 0xA5, CHR 0xE5, CHR 0x91, CHR 0x8A]"

definition newline :: string where
  "newline = [CHR 0x0A]"

definition image_model :: string where
  "image_model = ''gemini-3-pro-image-preview''"

text \<open>Lines 875-894.\<close>

definition titles :: "(string \<times> string) list" where
  "titles =
     [(''summary'',
         [CHR 0xE6, CHR 0x91, CHR 0x98, CHR 0xE8, CHR 0xA6, CHR 0x81]),
      (''faq'',
         [CHR 0xE5, CHR 0xB8, CHR 0xB8, CHR 0xE8, CHR 0xA7, CHR 0x81, CHR 0xE9,
         CHR 0x97, CHR 0xAE, CHR 0xE9, CHR 0xA2, CHR 0x98, CHR 0xE8, CHR 0xA7,
         CHR 0xA3, CHR 0xE7, CHR 0xAD, CHR 0x94]),
      (''study_guide'',
         [CHR 0xE5, CHR 0xAD, CHR 0xA6, CHR 0xE4, CHR 0xB9, CHR 0xA0, CHR 0xE6,
         CHR 0x8C, CHR 0x87, CHR 0xE5, CHR 0x8D, CHR 0x97]),
      (''outline'',
         [CHR 0xE5, CHR 0xA4, CHR 0xA7, CHR 0xE7, CHR 0xBA, CHR 0xB2]),
      (''podcast'',
         [CHR 0xE6, CHR 0x92, CHR 0xAD, CHR 0xE5, CHR 0xAE, CHR 0xA2, CHR 0xE8,
         CHR 0x84, CHR 0x9A, CHR 0xE6, CHR 0x9C, CHR 0xAC]),
      (''timeline'',
         [CHR 0xE6, CHR 0x97, CHR 0xB6, CHR 0xE9, CHR 0x97, CHR 0xB4, CHR 0xE7,
         CHR 0xBA, CHR 0xBF]),
      (''glossary'',
         [CHR 0xE6, CHR 0x9C, CHR 0xAF, CHR 0xE8, CHR 0xAF, CHR 0xAD, CHR 0xE8,
         CHR 0xA1, CHR 0xA8]),
      (''quiz'',
         [CHR 0xE6, CHR 0xB5, CHR 0x8B, CHR 0xE9, CHR 0xAA, CHR 0x8C]),
      (''infograph'',
         [CHR 0xE4, CHR 0xBF, CHR 0xA1, CHR 0xE6, CHR 0x81, CHR 0xAF, CHR 0xE5,
         CHR 0x9B, CHR 0xBE]),
      (''ppt'',
         [CHR 0xE5, CHR 0xB9, CHR 0xBB, CHR 0xE7, CHR 0x81, CHR 0xAF, CHR 0xE7,
         CHR 0x89, CHR 0x87]),
      (''mindmap'',
         [CHR 0xE6, CHR 0x80, CHR 0x9D, CHR 0xE7, CHR 0xBB, CHR 0xB4, CHR 0xE5,
         CHR 0xAF, CHR 0xBC, CHR 0xE5, CHR 0x9B, CHR 0xBE]),
      (''insight'',
         [CHR 0xE6, CHR 0xB4, CHR 0x9E, CHR 0xE5, CHR 0xAF, CHR 0x9F, CHR 0xE6,
         CHR 0x8A, CHR 0xA5, CHR 0xE5, CHR 0x91, CHR 0x8A])]"

definition getTitleForType :: "string \<Rightarrow> string" where
  "getTitleForType t =
     (case map_of titles t of
        Some title \<Rightarrow> title
      | None \<Rightarrow> [CHR 0xE7, CHR 0xAC, CHR 0x94, CHR 0xE8, CHR 0xAE, CHR 0xB0])"

text \<open>
  Go's \<^verbatim>\<open>filepath.Base\<close> on a Unix path: the empty path gives \<^verbatim>\<open>"."\<close>, trailing slashes
  are stripped, the text after the last slash is returned, and a path of slashes only
  gives \<^verbatim>\<open>"/"\<close>.
\<close>

definition filepath_Base :: "string \<Rightarrow> string" where
  "filepath_Base path =
     (if path = [] then ''.''
      else (let stripped = rev (dropWhile (\<lambda>c. c = CHR ''/'') (rev path));
                last_element = rev (takeWhile (\<lambda>c. c \<noteq> CHR ''/'') (rev stripped))
            in if last_element = [] then ''/'' else last_element))"

definition web_path :: "string \<Rightarrow> string" where
  "web_path imagePath = ''/api/files/'' @ filepath_Base imagePath"

subsection \<open>What the outside world answers during one request\<close>

text \<open>
  \<^verbatim>\<open>Agent.GenerateTransformation\<close>, \<^verbatim>\<open>Agent.ParsePPTSlides\<close> and the provider's
  \<^verbatim>\<open>GenerateImage\<close> are not among the files at hand and are parameters: the text
  generation answers with the content of its response or an error; the image generation
  answers the \<open>k\<close>-th image call of the request (counted from 0) with the path of the
  image file or an error. The text generation receives a pointer to the request; it is
  taken to leave the request as it is. \<open>tr_NoteID\<close>, \<open>tr_SourceID\<close> are the UUIDs
  and \<open>tr_NoteTime\<close>, \<open>tr_SourceTime\<close> the clock readings of the two inserts.
\<close>

record TransformEnv =
  tr_load :: LoadEnv
  tr_ListNotes :: "error option"
  tr_ListSources :: "error option"
  tr_GenerateTransformation :: "TransformationRequest \<Rightarrow> Source list \<Rightarrow> error + string"
  tr_ParsePPTSlides :: "string \<Rightarrow> Slide list"
  tr_GenerateImage :: "nat \<Rightarrow> string \<Rightarrow> error + string"
  tr_CreateNote :: "error option"
  tr_NoteID :: string
  tr_NoteTime :: int
  tr_LogActivity :: "error option"
  tr_CreateSource :: "error option"
  tr_SourceID :: string
  tr_SourceTime :: int
  tr_IngestText :: "error option"
  tr_UpdateSourceChunkCount :: "error option"

definition GenerateTransformation ::
  "TransformEnv \<Rightarrow> TransformationRequest \<Rightarrow> Source list \<Rightarrow> Server \<Rightarrow>
     (error + string) \<times> Server" where
  "GenerateTransformation env req srcs s =
     (tr_GenerateTransformation env req srcs,
      record_call (CallGenerateTransformation req srcs) s)"

definition GenerateImage ::
  "TransformEnv \<Rightarrow> nat \<Rightarrow> string \<Rightarrow> string \<Rightarrow> Server \<Rightarrow> (error + string) \<times> Server" where
  "GenerateImage env k prompt userID s =
     (tr_GenerateImage env k prompt,
      record_call (CallGenerateImage image_model prompt userID) s)"

subsection \<open>The steps of the handler\<close>

text \<open>
  Lines 710-723: the check for an existing note of the requested type. \<open>Some r\<close> is
  the response with which the handler returns at once.
\<close>

definition checkSameType ::
  "TransformEnv \<Rightarrow> string \<Rightarrow> TransformationRequest \<Rightarrow> Server \<Rightarrow> response option \<times> Server" where
  "checkSameType env notebookID req s =
     (if \<not> cfg_AllowMultipleNotesOfSameType s
      then (case ListNotes (tr_ListNotes env) notebookID s of
              (Inl err, s') \<Rightarrow>
                (Some (Response 500 (ErrorResponse ''Failed to check existing notes'')), s')
            | (Inr existingNotes, s') \<Rightarrow>
                (if list_ex (\<lambda>note. note_Type note = req_Type req) existingNotes
                 then (Some (Response 409 (ErrorResponse msg_same_type_exists)), s')
                 else (None, s')))
      else (None, s))"

text \<open>
  Lines 732-751: the sources the transformation works on, and the request with its
  \<^verbatim>\<open>SourceIDs\<close> filled in when none were given.
\<close>

definition resolveSources ::
  "TransformationRequest \<Rightarrow> Source list \<Rightarrow> Source list \<times> TransformationRequest" where
  "resolveSources req srcs =
     (if length (req_SourceIDs req) > 0
      then (filter (\<lambda>src. src_ID src \<in> set (req_SourceIDs req)) srcs, req)
      else (srcs, req\<lparr>req_SourceIDs := map src_ID srcs\<rparr>))"

text \<open>Lines 772-773: the prompt for the image of an infograph.\<close>

definition infographPrompt :: "string \<Rightarrow> string" where
  "infographPrompt content = content @ newline @ newline @ use_chinese_notice"

text \<open>Lines 770-783: the single image of an infograph.\<close>

definition infographImage ::
  "TransformEnv \<Rightarrow> string \<Rightarrow> string \<Rightarrow> metadata \<Rightarrow> Server \<Rightarrow> metadata \<times> Server" where
  "infographImage env userID content md s =
     (case GenerateImage env 0 (infographPrompt content) userID s of
        (Inl err, s') \<Rightarrow>
          (md(''image_error'' \<mapsto> MString err),
           record_call (Errorf (FailedToGenerateInfographicImage err)) s')
      | (Inr imagePath, s') \<Rightarrow> (md(''image_url'' \<mapsto> MString (web_path imagePath)), s'))"

text \<open>
  Line 798-799: the prompt of one slide; the style is the one of the first slide.
\<close>

definition slidePrompt :: "Slide list \<Rightarrow> Slide \<Rightarrow> string" where
  "slidePrompt slides slide =
     ''Style: '' @ slide_Style (hd slides) @ newline @ newline @ ''Slide Content: ''
       @ slide_Content slide @ newline @ newline @ use_chinese_notice @ newline"

text \<open>
  The loop of lines 795-806 from slide index \<open>i\<close> on: \<open>slides\<close> is the whole deck,
  \<open>todo\<close> the slides still to do, \<open>slideURLs\<close> the URLs collected so far.
\<close>

fun generateSlides ::
  "TransformEnv \<Rightarrow> string \<Rightarrow> Slide list \<Rightarrow> nat \<Rightarrow> Slide list \<Rightarrow> string list \<Rightarrow> Server \<Rightarrow>
     string list \<times> Server" where
  "generateSlides env userID slides i [] slideURLs s = (slideURLs, s)"
| "generateSlides env userID slides i (slide # todo) slideURLs s =
     (case GenerateImage env i (slidePrompt slides slide) userID s of
        (Inl err, s') \<Rightarrow>
          generateSlides env userID slides (Suc i) todo slideURLs
            (record_call (Errorf (FailedToGenerateSlide (i + 1) err)) s')
      | (Inr imagePath, s') \<Rightarrow>
          generateSlides env userID slides (Suc i) todo
            (slideURLs @ [web_path imagePath]) s')"

text \<open>Lines 785-809: the images of a slide deck.\<close>

definition pptImages ::
  "TransformEnv \<Rightarrow> string \<Rightarrow> string \<Rightarrow> metadata \<Rightarrow> Server \<Rightarrow> metadata \<times> Server" where
  "pptImages env userID content md s =
     (let slides = tr_ParsePPTSlides env content in
      if length slides > 10
      then (md(''image_error'' \<mapsto> MString msg_ppt_page_limit),
            record_call (Errorf (PptTooManySlides (length slides))) s)
      else (case generateSlides env userID slides 0 slides [] s of
              (slideURLs, s') \<Rightarrow> (md(''slides'' \<mapsto> MStrings slideURLs), s')))"

text \<open>Lines 847-870: an insight report is added to the notebook as a new source.\<close>

definition injectInsight ::
  "TransformEnv \<Rightarrow> string \<Rightarrow> string \<Rightarrow> Server \<Rightarrow> Server" where
  "injectInsight env notebookID content s =
     (let insightSource = \<lparr>src_ID = [], src_NotebookID = notebookID,
                            src_Name = insight_source_name, src_Type = ''insight'',
                            src_Content = content, src_ChunkCount = 0,
                            src_CreatedAt = zeroTime\<rparr> in
      case CreateSource (tr_CreateSource env) (tr_SourceID env) (tr_SourceTime env)
             insightSource s of
        ((Some err, created), s1) \<Rightarrow> record_call (Errorf (FailedToCreateInsightSource err)) s1
      | ((None, created), s1) \<Rightarrow>
          (case IngestText (tr_IngestText env) notebookID (src_Name created)
                  (src_Content created) s1 of
             (Inl err, s2) \<Rightarrow> record_call (Errorf (FailedToIngestInsightText err)) s2
           | (Inr chunkCount, s2) \<Rightarrow>
               snd (UpdateSourceChunkCount (tr_UpdateSourceChunkCount env) (src_ID created)
                      chunkCount s2)))"

text \<open>Lines 765-768: the metadata bag starts with the length and format hints.\<close>

definition initialMetadata :: "TransformationRequest \<Rightarrow> metadata" where
  "initialMetadata req =
     [''length'' \<mapsto> MString (req_Length req), ''format'' \<mapsto> MString (req_Format req)]"

text \<open>
  Lines 811-825: the note handed to the store. The text of an infograph is cleared.
\<close>

definition buildNote :: "string \<Rightarrow> TransformationRequest \<Rightarrow> string \<Rightarrow> metadata \<Rightarrow> Note" where
  "buildNote notebookID req content md =
     (let noteContent = (if req_Type req = ''infograph'' then [] else content)
      in \<lparr>note_ID = [], note_NotebookID = notebookID,
          note_Title = getTitleForType (req_Type req), note_Content = noteContent,
          note_Type = req_Type req, note_SourceIDs = req_SourceIDs req,
          note_Metadata = md, note_CreatedAt = zeroTime\<rparr>)"

text \<open>Lines 832-845: the activity entry; a failure to write it is logged only.\<close>

definition logTransformActivity :: "TransformEnv \<Rightarrow> string \<Rightarrow> Note \<Rightarrow> Server \<Rightarrow> Server" where
  "logTransformActivity env userID saved s =
     (case LogActivity (tr_LogActivity env) userID ''transform'' (note_ID saved) s of
        (Some err, s') \<Rightarrow> record_call (Errorf (FailedToLogTransformationActivity err)) s'
      | (None, s') \<Rightarrow> s')"

text \<open>
  Lines 765-809: the images that go with the generated text, and the metadata bag that
  describes them.
\<close>

definition secondaryGeneration ::
  "TransformEnv \<Rightarrow> string \<Rightarrow> TransformationRequest \<Rightarrow> string \<Rightarrow> Server \<Rightarrow> metadata \<times> Server" where
  "secondaryGeneration env userID req content s =
     (let md0 = initialMetadata req;
          (md1, s1) = (if req_Type req = ''infograph''
                       then infographImage env userID content md0 s else (md0, s));
          (md2, s2) = (if req_Type req = ''ppt''
                       then pptImages env userID content md1 s1 else (md1, s1))
      in (md2, s2))"

text \<open>
  Lines 811-872: the note is saved, the activity is logged, an insight report becomes a
  new source, and the saved note is the body of the response.
\<close>

definition persistNote ::
  "TransformEnv \<Rightarrow> string \<Rightarrow> string \<Rightarrow> TransformationRequest \<Rightarrow> string \<Rightarrow> metadata \<Rightarrow>
     Server \<Rightarrow> response \<times> Server" where
  "persistNote env notebookID userID req content md s =
     (let note = buildNote notebookID req content md
      in case CreateNote (tr_CreateNote env) (tr_NoteID env) (tr_NoteTime env) note s of
           ((Some err, saved), s3) \<Rightarrow> (Response 500 (ErrorResponse ''Failed to save note''), s3)
         | ((None, saved), s3) \<Rightarrow>
             (let s4 = logTransformActivity env userID saved s3;
                  s5 = (if req_Type req = ''insight''
                        then injectInsight env notebookID content s4 else s4)
              in (Response 200 (NoteJSON saved), s5)))"

text \<open>
  Lines 765-872: everything after the text generation has answered with \<open>content\<close>.
\<close>

definition completeTransform ::
  "TransformEnv \<Rightarrow> string \<Rightarrow> string \<Rightarrow> TransformationRequest \<Rightarrow> string \<Rightarrow> Server \<Rightarrow>
     response \<times> Server" where
  "completeTransform env notebookID userID req content s =
     (case secondaryGeneration env userID req content s of
        (md, s') \<Rightarrow> persistNote env notebookID userID req content md s')"

text \<open>
  Lines 699-702: the index of the notebook is loaded on demand; a failure is logged and
  the handler goes on.
\<close>

definition ensureVectorIndex :: "LoadEnv \<Rightarrow> string \<Rightarrow> Server \<Rightarrow> Server" where
  "ensureVectorIndex env notebookID s =
     (case loadNotebookVectorIndex env notebookID s of
        (Some err, s') \<Rightarrow> record_call (Errorf (FailedToLoadVectorIndex err)) s'
      | (None, s') \<Rightarrow> s')"

text \<open>
  Lines 694-756: the handler up to the point where the text generation is called.
  \<open>bound\<close> is the outcome of \<^verbatim>\<open>c.ShouldBindJSON(&req)\<close>: an error, or the request
  read from the body. The result is \<open>Inl\<close> of the response with which the handler returns
  early, or \<open>Inr\<close> of the request and the sources handed to the text generation.
\<close>

definition prepareTransform ::
  "TransformEnv \<Rightarrow> string \<Rightarrow> error + TransformationRequest \<Rightarrow> Server \<Rightarrow>
     (response \<times> Server) + (TransformationRequest \<times> Source list \<times> Server)" where
  "prepareTransform env notebookID bound s =
     (let s0 = ensureVectorIndex (tr_load env) notebookID s
      in case bound of
           Inl err \<Rightarrow> Inl (Response 400 (ErrorResponse err), s0)
         | Inr req0 \<Rightarrow>
             (case checkSameType env notebookID req0 s0 of
                (Some r, s1) \<Rightarrow> Inl (r, s1)
              | (None, s1) \<Rightarrow>
                  (case ListSources (tr_ListSources env) notebookID s1 of
                     (Inl err, s2) \<Rightarrow>
                       Inl (Response 500 (ErrorResponse ''Failed to get sources''), s2)
                   | (Inr listed, s2) \<Rightarrow>
                       (case resolveSources req0 listed of
                          (srcs, req) \<Rightarrow>
                            (if length srcs = 0
                             then Inl (Response 400 (ErrorResponse ''No sources available''),
                                       s2)
                             else Inr (req, srcs, s2))))))"

text \<open>Lines 694-873: the whole handler.\<close>

definition handleTransform ::
  "TransformEnv \<Rightarrow> string \<Rightarrow> string \<Rightarrow> error + TransformationRequest \<Rightarrow> Server \<Rightarrow>
     response \<times> Server" where
  "handleTransform env notebookID userID bound s =
     (case prepareTransform env notebookID bound s of
        Inl early \<Rightarrow> early
      | Inr (req, srcs, s2) \<Rightarrow>
          (case GenerateTransformation env req srcs s2 of
             (Inl err, s3) \<Rightarrow>
               (Response 500 (ErrorResponse (''Generation failed: '' @ err)), s3)
           | (Inr content, s3) \<Rightarrow> completeTransform env notebookID userID req content s3))"

section \<open>Notions used to state the properties\<close>

text \<open>The rows of a notebook, as the listings return them.\<close>

definition sourcesOf :: "string \<Rightarrow> Server \<Rightarrow> Source list" where
  "sourcesOf notebookID s =
     orderByCreatedAtDesc src_CreatedAt
       (filter (\<lambda>src. src_NotebookID src = notebookID) (db_sources s))"

definition notesOf :: "string \<Rightarrow> Server \<Rightarrow> Note list" where
  "notesOf notebookID s =
     orderByCreatedAtDesc note_CreatedAt
       (filter (\<lambda>n. note_NotebookID n = notebookID) (db_notes s))"

text \<open>The calls issued between two states of the server.\<close>

definition newCalls :: "Server \<Rightarrow> Server \<Rightarrow> event list" where
  "newCalls s s' = drop (length (calls s)) (calls s')"

fun isIngestFor :: "string \<Rightarrow> event \<Rightarrow> bool" where
  "isIngestFor notebookID (CallIngestText n name content) = (n = notebookID)"
| "isIngestFor notebookID e = False"

fun isGeneration :: "event \<Rightarrow> bool" where
  "isGeneration (CallGenerateTransformation req srcs) = True"
| "isGeneration (CallGenerateImage model prompt userID) = True"
| "isGeneration e = False"

fun isImageCall :: "event \<Rightarrow> bool" where
  "isImageCall (CallGenerateImage model prompt userID) = True"
| "isImageCall e = False"

fun isCreateNote :: "event \<Rightarrow> bool" where
  "isCreateNote (CallCreateNote note) = True"
| "isCreateNote e = False"

fun isSlideFailure :: "event \<Rightarrow> bool" where
  "isSlideFailure (Errorf (FailedToGenerateSlide k err)) = True"
| "isSlideFailure e = False"

subsection \<open>One ingestion sweep\<close>

text \<open>
  One sweep over the listed sources, in words: every source with non-empty content is
  handed to the ingestion once, in the order of the listing.
\<close>

definition sweepCalls :: "string \<Rightarrow> Source list \<Rightarrow> event list" where
  "sweepCalls notebookID srcs =
     map (\<lambda>src. CallIngestText notebookID (src_Name src) (src_Content src))
       (filter (\<lambda>src. src_Content src \<noteq> []) srcs)"

text \<open>
  The same sweep with its log lines: the ingestion of the source at position \<open>k\<close> is
  followed by an error line exactly when it failed.
\<close>

fun sweepTrace :: "(nat \<Rightarrow> error option) \<Rightarrow> string \<Rightarrow> nat \<Rightarrow> Source list \<Rightarrow> event list" where
  "sweepTrace outcome notebookID k [] = []"
| "sweepTrace outcome notebookID k (src # rest) =
     (if src_Content src = [] then []
      else CallIngestText notebookID (src_Name src) (src_Content src) #
           (case outcome k of
              Some err \<Rightarrow> [Errorf (FailedToLoadSource (src_Name src) err)]
            | None \<Rightarrow> []))
     @ sweepTrace outcome notebookID (Suc k) rest"

definition documentsOf :: "(string \<Rightarrow> string list) \<Rightarrow> string \<Rightarrow> Source \<Rightarrow> Document list" where
  "documentsOf split notebookID src =
     map (\<lambda>c. \<lparr>doc_NotebookID = notebookID, doc_SourceName = src_Name src, doc_Text = c\<rparr>)
       (split (src_Content src))"

text \<open>The documents a sweep adds: those of the sources whose ingestion succeeded.\<close>

fun sweepDocuments ::
  "(string \<Rightarrow> string list) \<Rightarrow> (nat \<Rightarrow> error option) \<Rightarrow> string \<Rightarrow> nat \<Rightarrow> Source list \<Rightarrow>
     Document list" where
  "sweepDocuments split outcome notebookID k [] = []"
| "sweepDocuments split outcome notebookID k (src # rest) =
     (if src_Content src \<noteq> [] \<and> outcome k = None
      then documentsOf split notebookID src else [])
     @ sweepDocuments split outcome notebookID (Suc k) rest"

text \<open>The calls of the on-demand index load at the start of a request.\<close>

definition indexLoadTrace :: "LoadEnv \<Rightarrow> string \<Rightarrow> Server \<Rightarrow> event list" where
  "indexLoadTrace env notebookID s =
     (if loadedNotebooks s notebookID then []
      else CallStoreListSources notebookID #
           (case load_ListSources env of
              Some err \<Rightarrow>
                [Errorf (FailedToLoadVectorIndex (''failed to list sources: '' @ err))]
            | None \<Rightarrow> sweepTrace (load_IngestText env) notebookID 0 (sourcesOf notebookID s)))"

subsection \<open>The calls of one transformation request\<close>

definition validationTrace :: "string \<Rightarrow> Server \<Rightarrow> event list" where
  "validationTrace notebookID s =
     (if cfg_AllowMultipleNotesOfSameType s then [] else [CallListNotes notebookID])
     @ [CallListSources notebookID]"

text \<open>Everything up to and including the call of the text generation.\<close>

definition requestTrace ::
  "TransformEnv \<Rightarrow> string \<Rightarrow> string \<Rightarrow> Server \<Rightarrow> TransformationRequest \<Rightarrow> Source list \<Rightarrow>
     event list" where
  "requestTrace env notebookID userID s req srcs =
     indexLoadTrace (tr_load env) notebookID s @ validationTrace notebookID s
     @ [CallGenerateTransformation req srcs]"

text \<open>
  The slide URLs in words: the web paths of the slides whose image call succeeded, in the
  order of the slides. Slide \<open>k\<close> (counted from 0) is answered by image call \<open>k\<close>.
\<close>

definition successfulSlideURLs ::
  "TransformEnv \<Rightarrow> Slide list \<Rightarrow> nat \<Rightarrow> Slide list \<Rightarrow> string list" where
  "successfulSlideURLs env slides i todo =
     List.map_filter
       (\<lambda>(k, slide). case tr_GenerateImage env k (slidePrompt slides slide) of
                         Inl err \<Rightarrow> None
                       | Inr imagePath \<Rightarrow> Some (web_path imagePath))
       (enumerate i todo)"

text \<open>The log lines of the slides whose image call failed, in the order of the slides.\<close>

definition failedSlideLogs :: "TransformEnv \<Rightarrow> Slide list \<Rightarrow> nat \<Rightarrow> Slide list \<Rightarrow> event list" where
  "failedSlideLogs env slides i todo =
     List.map_filter
       (\<lambda>(k, slide). case tr_GenerateImage env k (slidePrompt slides slide) of
                         Inl err \<Rightarrow> Some (Errorf (FailedToGenerateSlide (k + 1) err))
                       | Inr imagePath \<Rightarrow> None)
       (enumerate i todo)"

text \<open>One image call per slide, in the order of the slides.\<close>

definition slideImageCalls :: "string \<Rightarrow> Slide list \<Rightarrow> event list" where
  "slideImageCalls userID slides =
     map (\<lambda>slide. CallGenerateImage image_model (slidePrompt slides slide) userID) slides"

definition slideTrace ::
  "TransformEnv \<Rightarrow> string \<Rightarrow> Slide list \<Rightarrow> nat \<Rightarrow> Slide list \<Rightarrow> event list" where
  "slideTrace env userID slides i todo =
     concat (map
       (\<lambda>(k, slide).
           CallGenerateImage image_model (slidePrompt slides slide) userID #
           (case tr_GenerateImage env k (slidePrompt slides slide) of
              Inl err \<Rightarrow> [Errorf (FailedToGenerateSlide (k + 1) err)]
            | Inr imagePath \<Rightarrow> []))
       (enumerate i todo))"

definition logTrace :: "TransformEnv \<Rightarrow> string \<Rightarrow> event list" where
  "logTrace env userID =
     CallLogActivity userID ''transform'' (tr_NoteID env) #
     (case tr_LogActivity env of
        Some err \<Rightarrow> [Errorf (FailedToLogTransformationActivity err)]
      | None \<Rightarrow> [])"

text \<open>The metadata bag and the calls of the image step, by transformation type.\<close>

definition secondaryMetadata :: "TransformEnv \<Rightarrow> TransformationRequest \<Rightarrow> string \<Rightarrow> metadata" where
  "secondaryMetadata env req content =
     (if req_Type req = ''infograph''
      then (case tr_GenerateImage env 0 (infographPrompt content) of
              Inl err \<Rightarrow> (initialMetadata req)(''image_error'' \<mapsto> MString err)
            | Inr imagePath \<Rightarrow>
                (initialMetadata req)(''image_url'' \<mapsto> MString (web_path imagePath)))
      else if req_Type req = ''ppt''
      then (if length (tr_ParsePPTSlides env content) > 10
            then (initialMetadata req)(''image_error'' \<mapsto> MString msg_ppt_page_limit)
            else (initialMetadata req)(''slides'' \<mapsto>
                    MStrings (successfulSlideURLs env (tr_ParsePPTSlides env content) 0
                                (tr_ParsePPTSlides env content))))
      else initialMetadata req)"

definition secondaryTrace ::
  "TransformEnv \<Rightarrow> string \<Rightarrow> TransformationRequest \<Rightarrow> string \<Rightarrow> event list" where
  "secondaryTrace env userID req content =
     (if req_Type req = ''infograph''
      then CallGenerateImage image_model (infographPrompt content) userID #
           (case tr_GenerateImage env 0 (infographPrompt content) of
              Inl err \<Rightarrow> [Errorf (FailedToGenerateInfographicImage err)]
            | Inr imagePath \<Rightarrow> [])
      else if req_Type req = ''ppt''
      then (if length (tr_ParsePPTSlides env content) > 10
            then [Errorf (PptTooManySlides (length (tr_ParsePPTSlides env content)))]
            else slideTrace env userID (tr_ParsePPTSlides env content) 0
                   (tr_ParsePPTSlides env content))
      else [])"

text \<open>
  The note of an infograph in words: no text, and besides the two hints one metadata
  entry, which the outcome of the image call decides. The generated text is not an
  argument.
\<close>

fun infographEntry :: "error + string \<Rightarrow> string \<times> meta_value" where
  "infographEntry (Inl err) = (''image_error'', MString err)"
| "infographEntry (Inr imagePath) = (''image_url'', MString (web_path imagePath))"

definition infographNote ::
  "string \<Rightarrow> TransformationRequest \<Rightarrow> error + string \<Rightarrow> Note" where
  "infographNote notebookID req imageOutcome =
     \<lparr>note_ID = [], note_NotebookID = notebookID,
      note_Title = getTitleForType ''infograph'', note_Content = [],
      note_Type = ''infograph'', note_SourceIDs = req_SourceIDs req,
      note_Metadata = (initialMetadata req)(fst (infographEntry imageOutcome) \<mapsto>
                         snd (infographEntry imageOutcome)),
      note_CreatedAt = zeroTime\<rparr>"

text \<open>
  The calls and log lines by which an insight report is added as a source: the store is
  handed the new source; when it refuses, this is logged and nothing follows; otherwise
  the text is handed to the ingestion, a failure of which is logged, and after a
  successful ingestion the number of chunks is written to the row of the source.
\<close>

definition insightTrace :: "TransformEnv \<Rightarrow> Server \<Rightarrow> string \<Rightarrow> string \<Rightarrow> event list" where
  "insightTrace env s notebookID content =
     CallCreateSource \<lparr>src_ID = [], src_NotebookID = notebookID,
                        src_Name = insight_source_name, src_Type = ''insight'',
                        src_Content = content, src_ChunkCount = 0,
                        src_CreatedAt = zeroTime\<rparr>
     # (case tr_CreateSource env of
          Some err \<Rightarrow> [Errorf (FailedToCreateInsightSource err)]
        | None \<Rightarrow>
            CallIngestText notebookID insight_source_name content
            # (case tr_IngestText env of
                 Some err \<Rightarrow> [Errorf (FailedToIngestInsightText err)]
               | None \<Rightarrow>
                   [CallUpdateSourceChunkCount (tr_SourceID env)
                      (int (length (splitter s content)))]))"

text \<open>The documents that the ingestion of an insight report adds to the index.\<close>

definition insightDocuments :: "Server \<Rightarrow> string \<Rightarrow> string \<Rightarrow> Document list" where
  "insightDocuments s notebookID content =
     map (\<lambda>c. \<lparr>doc_NotebookID = notebookID, doc_SourceName = insight_source_name,
                 doc_Text = c\<rparr>) (splitter s content)"

section \<open>Example data\<close>

text \<open>
  A server with two notebooks: \<open>n1\<close> holds three sources, one of them without content,
  \<open>n2\<close> holds one; no two rows share a stamp. Nothing is loaded into the index yet.
  The splitter keeps a text in one piece.
\<close>

definition demoSources :: "Source list" where
  "demoSources =
     [\<lparr>src_ID = ''s4'', src_NotebookID = ''n2'', src_Name = ''d.txt'', src_Type = ''text'',
        src_Content = ''delta'', src_ChunkCount = 0, src_CreatedAt = 400\<rparr>,
      \<lparr>src_ID = ''s3'', src_NotebookID = ''n1'', src_Name = ''c.txt'', src_Type = ''text'',
        src_Content = ''gamma'', src_ChunkCount = 0, src_CreatedAt = 300\<rparr>,
      \<lparr>src_ID = ''s2'', src_NotebookID = ''n1'', src_Name = ''b.txt'', src_Type = ''text'',
        src_Content = [], src_ChunkCount = 0, src_CreatedAt = 200\<rparr>,
      \<lparr>src_ID = ''s1'', src_NotebookID = ''n1'', src_Name = ''a.txt'', src_Type = ''text'',
        src_Content = ''alpha'', src_ChunkCount = 0, src_CreatedAt = 100\<rparr>]"

definition demoServer :: Server where
  "demoServer =
     \<lparr>cfg_AllowMultipleNotesOfSameType = False, splitter = (\<lambda>c. [c]),
      db_notebooks = [\<lparr>nb_ID = ''n1'', nb_UserID = ''u1''\<rparr>,
                      \<lparr>nb_ID = ''n2'', nb_UserID = ''u1''\<rparr>],
      db_sources = demoSources, db_notes = [], vectorStore = [],
      loadedNotebooks = (\<lambda>n. False), calls = []\<rparr>"

definition demoServerWithSummary :: Server where
  "demoServerWithSummary =
     demoServer\<lparr>db_notes :=
       [\<lparr>note_ID = ''note-0'', note_NotebookID = ''n1'', note_Title = ''Summary'',
         note_Content = ''old'', note_Type = ''summary'', note_SourceIDs = [''s1''],
         note_Metadata = Map.empty, note_CreatedAt = 50\<rparr>]\<rparr>"

definition loadOk :: LoadEnv where
  "loadOk = \<lparr>load_ListSources = None, load_IngestText = (\<lambda>k. None)\<rparr>"

definition loadFirstIngestFails :: LoadEnv where
  "loadFirstIngestFails =
     \<lparr>load_ListSources = None,
      load_IngestText = (\<lambda>k. if k = 0 then Some ''embedding failed'' else None)\<rparr>"

definition loadListFails :: LoadEnv where
  "loadListFails =
     \<lparr>load_ListSources = Some ''database is locked'', load_IngestText = (\<lambda>k. None)\<rparr>"

definition demoLoaded :: Server where
  "demoLoaded = snd (loadNotebookVectorIndex loadOk ''n1'' demoServer)"

definition delOk :: DeleteEnv where
  "delOk = \<lparr>del_GetSource = None, del_GetNotebook = None, del_DeleteSource = None\<rparr>"

definition demoRequest :: "string \<Rightarrow> TransformationRequest" where
  "demoRequest t =
     \<lparr>req_Type = t, req_Prompt = [], req_SourceIDs = [], req_Length = ''short'',
      req_Format = ''markdown''\<rparr>"

definition demoResolved :: "string \<Rightarrow> TransformationRequest" where
  "demoResolved t = (demoRequest t)\<lparr>req_SourceIDs := [''s3'', ''s2'', ''s1'']\<rparr>"

definition demoSlides :: "Slide list" where
  "demoSlides =
     [\<lparr>slide_Style = ''flat'', slide_Content = ''one''\<rparr>,
      \<lparr>slide_Style = ''bold'', slide_Content = ''two''\<rparr>,
      \<lparr>slide_Style = ''bold'', slide_Content = ''three''\<rparr>]"

text \<open>
  An outside world in which everything works except the second image call of a request.
\<close>

definition demoEnv :: TransformEnv where
  "demoEnv =
     \<lparr>tr_load = loadOk, tr_ListNotes = None, tr_ListSources = None,
      tr_GenerateTransformation = (\<lambda>req srcs. Inr ''TEXT''),
      tr_ParsePPTSlides = (\<lambda>content. demoSlides),
      tr_GenerateImage =
        (\<lambda>k prompt. if k = 1 then Inl ''quota exceeded''
                      else if k = 0 then Inr ''data/uploads/a.png''
                      else Inr ''data/uploads/c.png''),
      tr_CreateNote = None, tr_NoteID = ''note-1'', tr_NoteTime = 500,
      tr_LogActivity = None, tr_CreateSource = None, tr_SourceID = ''s5'',
      tr_SourceTime = 500, tr_IngestText = None,
      tr_UpdateSourceChunkCount = None\<rparr>"

definition demoEnvTextFails :: TransformEnv where
  "demoEnvTextFails =
     demoEnv\<lparr>tr_GenerateTransformation := (\<lambda>req srcs. Inl ''model timeout'')\<rparr>"

definition demoEnvImageFails :: TransformEnv where
  "demoEnvImageFails = demoEnv\<lparr>tr_GenerateImage := (\<lambda>k prompt. Inl ''quota exceeded'')\<rparr>"

definition demoEnvElevenSlides :: TransformEnv where
  "demoEnvElevenSlides =
     demoEnv\<lparr>tr_ParsePPTSlides :=
       (\<lambda>content. replicate 11 \<lparr>slide_Style = ''flat'', slide_Content = ''page''\<rparr>)\<rparr>"

text \<open>Outside worlds in which one call of the store fails.\<close>

definition demoEnvListNotesFails :: TransformEnv where
  "demoEnvListNotesFails = demoEnv\<lparr>tr_ListNotes := Some ''database is locked''\<rparr>"

definition demoEnvImageAndSaveFail :: TransformEnv where
  "demoEnvImageAndSaveFail = demoEnvImageFails\<lparr>tr_CreateNote := Some ''disk full''\<rparr>"

definition demoEnvElevenSlidesSaveFails :: TransformEnv where
  "demoEnvElevenSlidesSaveFails = demoEnvElevenSlides\<lparr>tr_CreateNote := Some ''disk full''\<rparr>"

definition demoEnvSlidesSaveFails :: TransformEnv where
  "demoEnvSlidesSaveFails = demoEnv\<lparr>tr_CreateNote := Some ''disk full''\<rparr>"

definition demoEnvCreateSourceFails :: TransformEnv where
  "demoEnvCreateSourceFails = demoEnv\<lparr>tr_CreateSource := Some ''disk full''\<rparr>"

section \<open>Listings\<close>

text \<open>A listing holds the rows of the table, each once, whatever their stamps.\<close>

lemma orderByCreatedAtDesc_mset: "mset (orderByCreatedAtDesc created_at rows) = mset rows"
  by (simp add: orderByCreatedAtDesc_def)

lemma orderByCreatedAtDesc_length:
  "length (orderByCreatedAtDesc created_at rows) = length rows"
  by (simp add: orderByCreatedAtDesc_def)

lemma orderByCreatedAtDesc_Nil: "orderByCreatedAtDesc created_at [] = []"
  by (simp add: orderByCreatedAtDesc_def)

text \<open>
  A row inserted in the same second as an older row comes after it in the listing, and
  before the rows of earlier seconds.
\<close>

lemma orderByCreatedAtDesc_same_second:
  "map fst (orderByCreatedAtDesc snd [(''new'', 300), (''old'', 300), (''older'', 100 :: int)])
     = [''old'', ''new'', ''older'']"
  by (simp add: orderByCreatedAtDesc_def)

lemma sourcesOf_mset:
  "mset (map f (sourcesOf nb s)) =
     mset (map f (filter (\<lambda>src. src_NotebookID src = nb) (db_sources s)))"
  by (simp add: sourcesOf_def orderByCreatedAtDesc_mset)

lemma sourcesOf_length:
  "length (sourcesOf nb s) = length (filter (\<lambda>src. src_NotebookID src = nb) (db_sources s))"
  by (simp add: sourcesOf_def orderByCreatedAtDesc_length)

section \<open>The index load, step by step\<close>

lemma ingestSources_eq:
  "ingestSources outcome nb k srcs s =
     s\<lparr>vectorStore := vectorStore s @ sweepDocuments (splitter s) outcome nb k srcs,
       calls := calls s @ sweepTrace outcome nb k srcs\<rparr>"
proof (induction srcs arbitrary: k s)
  case Nil
  show ?case by simp
next
  case (Cons src rest)
  show ?case
    by (cases "outcome k")
       (simp_all add: Cons.IH IngestText_def record_call_def Let_def documentsOf_def)
qed

lemma load_loaded: "loadedNotebooks s nb \<Longrightarrow> loadNotebookVectorIndex env nb s = (None, s)"
  by (simp add: loadNotebookVectorIndex_def)

lemma load_list_fails:
  "\<not> loadedNotebooks s nb \<Longrightarrow> load_ListSources env = Some err \<Longrightarrow>
   loadNotebookVectorIndex env nb s =
     (Some (''failed to list sources: '' @ err),
      s\<lparr>calls := calls s @ [CallStoreListSources nb]\<rparr>)"
  by (simp add: loadNotebookVectorIndex_def Store_ListSources_def record_call_def Let_def)

lemma load_sweep:
  "\<not> loadedNotebooks s nb \<Longrightarrow> load_ListSources env = None \<Longrightarrow>
   loadNotebookVectorIndex env nb s =
     (None,
      s\<lparr>vectorStore := vectorStore s
           @ sweepDocuments (splitter s) (load_IngestText env) nb 0 (sourcesOf nb s),
        loadedNotebooks := (loadedNotebooks s)(nb := True),
        calls := calls s @ CallStoreListSources nb
           # sweepTrace (load_IngestText env) nb 0 (sourcesOf nb s)\<rparr>)"
  by (simp add: loadNotebookVectorIndex_def Store_ListSources_def record_call_def Let_def
        ingestSources_eq sourcesOf_def)

lemma filter_sweepTrace:
  "filter (isIngestFor nb) (sweepTrace outcome nb' k srcs) =
     (if nb' = nb then sweepCalls nb srcs else [])"
  by (induction srcs arbitrary: k) (auto simp: sweepCalls_def split: option.splits)

lemma sweepTrace_quiet:
  "filter isGeneration (sweepTrace outcome nb k srcs) = []"
  "filter isCreateNote (sweepTrace outcome nb k srcs) = []"
  "filter isImageCall (sweepTrace outcome nb k srcs) = []"
  "filter isSlideFailure (sweepTrace outcome nb k srcs) = []"
  by (induction srcs arbitrary: k) (auto split: option.splits)

text \<open>
  One call of the load: the tables stay as they are, a loaded notebook stays loaded, and
  ingestion calls for a notebook appear exactly when the call takes it from not loaded to
  loaded.
\<close>

lemma load_step:
  assumes "s' = snd (loadNotebookVectorIndex env nb0 s)"
  shows "db_sources s' = db_sources s"
    and "loadedNotebooks s nb \<Longrightarrow> loadedNotebooks s' nb"
    and "filter (isIngestFor nb) (calls s') =
           filter (isIngestFor nb) (calls s)
           @ (if \<not> loadedNotebooks s nb \<and> loadedNotebooks s' nb
              then sweepCalls nb (sourcesOf nb s) else [])"
proof -
  consider (a) "loadedNotebooks s nb0"
    | (b) err where "\<not> loadedNotebooks s nb0" "load_ListSources env = Some err"
    | (c) "\<not> loadedNotebooks s nb0" "load_ListSources env = None"
    by (cases "load_ListSources env") auto
  then have all:
    "db_sources s' = db_sources s \<and> (loadedNotebooks s nb \<longrightarrow> loadedNotebooks s' nb) \<and>
     filter (isIngestFor nb) (calls s') =
       filter (isIngestFor nb) (calls s)
       @ (if \<not> loadedNotebooks s nb \<and> loadedNotebooks s' nb
          then sweepCalls nb (sourcesOf nb s) else [])"
  proof cases
    case a
    then show ?thesis using assms by (simp add: load_loaded)
  next
    case b
    then show ?thesis using assms by (simp add: load_list_fails)
  next
    case c
    then show ?thesis using assms by (auto simp: load_sweep filter_sweepTrace)
  qed
  from all show "db_sources s' = db_sources s" by simp
  from all show "loadedNotebooks s nb \<Longrightarrow> loadedNotebooks s' nb" by simp
  from all show "filter (isIngestFor nb) (calls s') =
           filter (isIngestFor nb) (calls s)
           @ (if \<not> loadedNotebooks s nb \<and> loadedNotebooks s' nb
              then sweepCalls nb (sourcesOf nb s) else [])" by simp
qed

lemma runLoads_loaded:
  "loadedNotebooks s nb \<Longrightarrow> loadedNotebooks (runLoads cs s) nb"
proof (induction cs arbitrary: s)
  case Nil
  then show ?case by simp
next
  case (Cons c cs)
  obtain nb0 env where c: "c = (nb0, env)" by (cases c)
  show ?case using Cons.prems
    by (simp add: c Cons.IH load_step(2) [OF refl])
qed

lemma runLoads_ingest:
  "filter (isIngestFor nb) (calls (runLoads cs s)) =
     filter (isIngestFor nb) (calls s)
     @ (if \<not> loadedNotebooks s nb \<and> loadedNotebooks (runLoads cs s) nb
        then sweepCalls nb (sourcesOf nb s) else [])"
proof (induction cs arbitrary: s)
  case Nil
  show ?case by simp
next
  case (Cons c cs)
  obtain nb0 env where c: "c = (nb0, env)" by (cases c)
  define s1 where "s1 = snd (loadNotebookVectorIndex env nb0 s)"
  have run: "runLoads (c # cs) s = runLoads cs s1" by (simp add: c s1_def)
  have src: "sourcesOf nb s1 = sourcesOf nb s"
    by (simp add: sourcesOf_def load_step(1) [OF s1_def])
  note step = load_step(3) [OF s1_def, of nb]
  note mono = load_step(2) [OF s1_def, of nb]
  note IH = Cons.IH [of s1]
  show ?case
  proof (cases "loadedNotebooks s1 nb")
    case True
    then have "loadedNotebooks (runLoads cs s1) nb" by (rule runLoads_loaded)
    then show ?thesis using True IH step by (simp add: run)
  next
    case False
    then have "\<not> loadedNotebooks s nb" using mono by blast
    then show ?thesis using False IH step by (simp add: run src)
  qed
qed

lemma ensureVectorIndex_eq:
  "ensureVectorIndex env nb s =
     (if loadedNotebooks s nb \<or> load_ListSources env \<noteq> None
      then s\<lparr>calls := calls s @ indexLoadTrace env nb s\<rparr>
      else s\<lparr>vectorStore := vectorStore s
                @ sweepDocuments (splitter s) (load_IngestText env) nb 0 (sourcesOf nb s),
             loadedNotebooks := (loadedNotebooks s)(nb := True),
             calls := calls s @ indexLoadTrace env nb s\<rparr>)"
proof (cases "loadedNotebooks s nb")
  case True
  then show ?thesis by (simp add: ensureVectorIndex_def load_loaded indexLoadTrace_def)
next
  case False
  then show ?thesis
    by (cases "load_ListSources env")
       (simp_all add: ensureVectorIndex_def load_sweep load_list_fails indexLoadTrace_def
          record_call_def)
qed

lemma ensureVectorIndex_frame:
  "cfg_AllowMultipleNotesOfSameType (ensureVectorIndex env nb s) =
     cfg_AllowMultipleNotesOfSameType s"
  "splitter (ensureVectorIndex env nb s) = splitter s"
  "db_notebooks (ensureVectorIndex env nb s) = db_notebooks s"
  "db_sources (ensureVectorIndex env nb s) = db_sources s"
  "db_notes (ensureVectorIndex env nb s) = db_notes s"
  "calls (ensureVectorIndex env nb s) = calls s @ indexLoadTrace env nb s"
  by (simp_all add: ensureVectorIndex_eq)

lemma indexLoadTrace_quiet:
  "filter isGeneration (indexLoadTrace env nb s) = []"
  "filter isCreateNote (indexLoadTrace env nb s) = []"
  "filter isImageCall (indexLoadTrace env nb s) = []"
  "filter isSlideFailure (indexLoadTrace env nb s) = []"
  by (auto simp: indexLoadTrace_def sweepTrace_quiet split: option.splits)

section \<open>The handler, step by step\<close>

lemma checkSameType_eq:
  "checkSameType env nb req s =
     (if cfg_AllowMultipleNotesOfSameType s then (None, s)
      else (case tr_ListNotes env of
              Some err \<Rightarrow> Some (Response 500 (ErrorResponse ''Failed to check existing notes''))
            | None \<Rightarrow>
                if list_ex (\<lambda>note. note_Type note = req_Type req) (notesOf nb s)
                then Some (Response 409 (ErrorResponse msg_same_type_exists)) else None,
            s\<lparr>calls := calls s @ [CallListNotes nb]\<rparr>))"
  by (simp add: checkSameType_def ListNotes_def record_call_def Let_def notesOf_def
        split: option.splits)

lemma ListSources_eq:
  "ListSources outcome nb s =
     (case outcome of Some err \<Rightarrow> Inl err | None \<Rightarrow> Inr (sourcesOf nb s),
      s\<lparr>calls := calls s @ [CallListSources nb]\<rparr>)"
  by (simp add: ListSources_def record_call_def Let_def sourcesOf_def split: option.splits)

lemma prepare_check_stops:
  assumes "\<not> cfg_AllowMultipleNotesOfSameType s"
    and "list_ex (\<lambda>note. note_Type note = req_Type req) (notesOf nb s)"
  shows "prepareTransform env nb (Inr req) s =
           Inl (case tr_ListNotes env of
                  None \<Rightarrow> Response 409 (ErrorResponse msg_same_type_exists)
                | Some err \<Rightarrow> Response 500 (ErrorResponse ''Failed to check existing notes''),
                record_call (CallListNotes nb) (ensureVectorIndex (tr_load env) nb s))"
  using assms
  by (simp add: prepareTransform_def checkSameType_eq ensureVectorIndex_frame notesOf_def
        record_call_def split: option.splits)

lemma prepare_Inr:
  assumes "prepareTransform env nb bound s = Inr (req, srcs, s2)"
  shows "s2 = (ensureVectorIndex (tr_load env) nb s)
                \<lparr>calls := calls s @ indexLoadTrace (tr_load env) nb s @ validationTrace nb s\<rparr>"
  using assms
  by (auto simp: prepareTransform_def checkSameType_eq ListSources_eq Let_def
        ensureVectorIndex_frame validationTrace_def
        split: sum.splits option.splits if_splits prod.splits)

lemma prepare_frame:
  assumes "prepareTransform env nb bound s = Inr (req, srcs, s2)"
  shows "db_notes s2 = db_notes s" and "db_sources s2 = db_sources s"
    and "splitter s2 = splitter s"
    and "calls s2 = calls s @ indexLoadTrace (tr_load env) nb s @ validationTrace nb s"
    and "vectorStore s2 = vectorStore (ensureVectorIndex (tr_load env) nb s)"
  by (simp_all add: prepare_Inr [OF assms] ensureVectorIndex_frame)

lemma prepare_ok:
  assumes "cfg_AllowMultipleNotesOfSameType s \<or>
           tr_ListNotes env = None \<and>
           \<not> list_ex (\<lambda>note. note_Type note = req_Type req0) (notesOf nb s)"
    and "tr_ListSources env = None"
    and "resolveSources req0 (sourcesOf nb s) = (srcs, req)"
    and "srcs \<noteq> []"
  shows "\<exists>s2. prepareTransform env nb (Inr req0) s = Inr (req, srcs, s2)"
  using assms
  by (auto simp: prepareTransform_def checkSameType_eq ListSources_eq Let_def
        ensureVectorIndex_frame notesOf_def sourcesOf_def)

lemma requestTrace_quiet:
  "filter isCreateNote (requestTrace env nb uid s req srcs) = []"
  "filter isImageCall (requestTrace env nb uid s req srcs) = []"
  "filter isSlideFailure (requestTrace env nb uid s req srcs) = []"
  "filter (isIngestFor nb) (requestTrace env nb uid s req srcs) =
     filter (isIngestFor nb) (indexLoadTrace (tr_load env) nb s)"
  by (simp_all add: requestTrace_def validationTrace_def indexLoadTrace_quiet)

lemma logTrace_quiet:
  "filter isCreateNote (logTrace env uid) = []"
  "filter isImageCall (logTrace env uid) = []"
  "filter isSlideFailure (logTrace env uid) = []"
  "filter (isIngestFor nb) (logTrace env uid) = []"
  by (simp_all add: logTrace_def split: option.splits)

lemma generateSlides_eq:
  "generateSlides env uid slides i todo urls s =
     (urls @ successfulSlideURLs env slides i todo,
      s\<lparr>calls := calls s @ slideTrace env uid slides i todo\<rparr>)"
proof (induction todo arbitrary: i urls s)
  case Nil
  show ?case by (simp add: successfulSlideURLs_def slideTrace_def)
next
  case (Cons slide todo)
  show ?case
    by (cases "tr_GenerateImage env i (slidePrompt slides slide)")
       (simp_all add: Cons.IH GenerateImage_def record_call_def successfulSlideURLs_def
          slideTrace_def)
qed

lemma filter_slideTrace:
  "filter isImageCall (slideTrace env uid slides i todo) =
     map (\<lambda>slide. CallGenerateImage image_model (slidePrompt slides slide) uid) todo"
  "filter isCreateNote (slideTrace env uid slides i todo) = []"
  "filter isSlideFailure (slideTrace env uid slides i todo) = failedSlideLogs env slides i todo"
  by (induction todo arbitrary: i)
     (auto simp: slideTrace_def failedSlideLogs_def split: sum.splits)

lemma infographImage_eq:
  "infographImage env uid content md s =
     (case tr_GenerateImage env 0 (infographPrompt content) of
        Inl err \<Rightarrow>
          (md(''image_error'' \<mapsto> MString err),
           s\<lparr>calls := calls s @ [CallGenerateImage image_model (infographPrompt content) uid,
                                   Errorf (FailedToGenerateInfographicImage err)]\<rparr>)
      | Inr imagePath \<Rightarrow>
          (md(''image_url'' \<mapsto> MString (web_path imagePath)),
           s\<lparr>calls := calls s
                @ [CallGenerateImage image_model (infographPrompt content) uid]\<rparr>))"
  by (simp add: infographImage_def GenerateImage_def record_call_def split: sum.splits)

lemma pptImages_eq:
  "pptImages env uid content md s =
     (let slides = tr_ParsePPTSlides env content in
      if length slides > 10
      then (md(''image_error'' \<mapsto> MString msg_ppt_page_limit),
            s\<lparr>calls := calls s @ [Errorf (PptTooManySlides (length slides))]\<rparr>)
      else (md(''slides'' \<mapsto> MStrings (successfulSlideURLs env slides 0 slides)),
            s\<lparr>calls := calls s @ slideTrace env uid slides 0 slides\<rparr>))"
  by (simp add: pptImages_def generateSlides_eq record_call_def Let_def)

lemma secondary_eq:
  "secondaryGeneration env uid req content s =
     (secondaryMetadata env req content,
      s\<lparr>calls := calls s @ secondaryTrace env uid req content\<rparr>)"
proof -
  consider (i) "req_Type req = ''infograph''" | (p) "req_Type req = ''ppt''"
    | (o) "req_Type req \<noteq> ''infograph''" "req_Type req \<noteq> ''ppt''" by blast
  then show ?thesis
  proof cases
    case i
    then show ?thesis
      by (simp add: secondaryGeneration_def infographImage_eq secondaryMetadata_def
            secondaryTrace_def Let_def split: sum.splits)
  next
    case p
    then show ?thesis
      by (simp add: secondaryGeneration_def pptImages_eq secondaryMetadata_def
            secondaryTrace_def Let_def)
  next
    case o
    then show ?thesis
      by (simp add: secondaryGeneration_def secondaryMetadata_def secondaryTrace_def Let_def)
  qed
qed

lemma logTransformActivity_eq:
  "logTransformActivity env uid saved s =
     s\<lparr>calls := calls s @ CallLogActivity uid ''transform'' (note_ID saved) #
         (case tr_LogActivity env of
            Some err \<Rightarrow> [Errorf (FailedToLogTransformationActivity err)]
          | None \<Rightarrow> [])\<rparr>"
  by (simp add: logTransformActivity_def LogActivity_def record_call_def split: option.splits)

lemma persistNote_fails:
  "tr_CreateNote env = Some err \<Longrightarrow>
   persistNote env nb uid req content md s =
     (Response 500 (ErrorResponse ''Failed to save note''),
      s\<lparr>calls := calls s @ [CallCreateNote (buildNote nb req content md)]\<rparr>)"
  by (simp add: persistNote_def CreateNote_def record_call_def Let_def)

lemma persistNote_plain:
  "tr_CreateNote env = None \<Longrightarrow> req_Type req \<noteq> ''insight'' \<Longrightarrow>
   persistNote env nb uid req content md s =
     (Response 200 (NoteJSON ((buildNote nb req content md)
                      \<lparr>note_ID := tr_NoteID env, note_CreatedAt := tr_NoteTime env\<rparr>)),
      s\<lparr>db_notes := (buildNote nb req content md)
                        \<lparr>note_ID := tr_NoteID env, note_CreatedAt := tr_NoteTime env\<rparr>
                      # db_notes s,
        calls := calls s @ CallCreateNote (buildNote nb req content md) # logTrace env uid\<rparr>)"
  by (simp add: persistNote_def CreateNote_def record_call_def Let_def logTransformActivity_eq
        logTrace_def)

lemma persistNote_insight:
  "tr_CreateNote env = None \<Longrightarrow> req_Type req = ''insight'' \<Longrightarrow>
   persistNote env nb uid req content md s =
     (Response 200 (NoteJSON ((buildNote nb req content md)
                      \<lparr>note_ID := tr_NoteID env, note_CreatedAt := tr_NoteTime env\<rparr>)),
      injectInsight env nb content
        (s\<lparr>db_notes := (buildNote nb req content md)
                          \<lparr>note_ID := tr_NoteID env, note_CreatedAt := tr_NoteTime env\<rparr>
                        # db_notes s,
           calls := calls s @ CallCreateNote (buildNote nb req content md)
                    # logTrace env uid\<rparr>))"
  by (simp add: persistNote_def CreateNote_def record_call_def Let_def logTransformActivity_eq
        logTrace_def)

lemma handle_generated:
  assumes "prepareTransform env nb bound s = Inr (req, srcs, s2)"
    and "tr_GenerateTransformation env req srcs = Inr content"
  shows "handleTransform env nb uid bound s =
           completeTransform env nb uid req content
             (s2\<lparr>calls := calls s2 @ [CallGenerateTransformation req srcs]\<rparr>)"
  using assms by (simp add: handleTransform_def GenerateTransformation_def record_call_def)

lemma handle_generation_failed:
  assumes "prepareTransform env nb bound s = Inr (req, srcs, s2)"
    and "tr_GenerateTransformation env req srcs = Inl err"
  shows "handleTransform env nb uid bound s =
           (Response 500 (ErrorResponse (''Generation failed: '' @ err)),
            s2\<lparr>calls := calls s2 @ [CallGenerateTransformation req srcs]\<rparr>)"
  using assms by (simp add: handleTransform_def GenerateTransformation_def record_call_def)

lemma handle_not_saved:
  assumes prep: "prepareTransform env nb bound s = Inr (req, srcs, s2)"
    and gen: "tr_GenerateTransformation env req srcs = Inr content"
    and save: "tr_CreateNote env = Some e"
  shows "handleTransform env nb uid bound s =
     (Response 500 (ErrorResponse ''Failed to save note''),
      s2\<lparr>calls := calls s @ requestTrace env nb uid s req srcs
           @ secondaryTrace env uid req content
           @ [CallCreateNote (buildNote nb req content (secondaryMetadata env req content))]\<rparr>)"
  by (simp add: handle_generated [OF prep gen] completeTransform_def secondary_eq
        persistNote_fails [OF save] prepare_frame(4) [OF prep] requestTrace_def)

lemma handle_saved_plain:
  assumes prep: "prepareTransform env nb bound s = Inr (req, srcs, s2)"
    and gen: "tr_GenerateTransformation env req srcs = Inr content"
    and save: "tr_CreateNote env = None"
    and ty: "req_Type req \<noteq> ''insight''"
  shows "handleTransform env nb uid bound s =
     (Response 200 (NoteJSON ((buildNote nb req content (secondaryMetadata env req content))
                      \<lparr>note_ID := tr_NoteID env, note_CreatedAt := tr_NoteTime env\<rparr>)),
      s2\<lparr>db_notes := (buildNote nb req content (secondaryMetadata env req content))
                        \<lparr>note_ID := tr_NoteID env, note_CreatedAt := tr_NoteTime env\<rparr>
                      # db_notes s,
         calls := calls s @ requestTrace env nb uid s req srcs
           @ secondaryTrace env uid req content
           @ CallCreateNote (buildNote nb req content (secondaryMetadata env req content))
           # logTrace env uid\<rparr>)"
  by (simp add: handle_generated [OF prep gen] completeTransform_def secondary_eq
        persistNote_plain [OF save ty] prepare_frame(1,4) [OF prep] requestTrace_def)

lemma handle_saved_insight:
  assumes prep: "prepareTransform env nb bound s = Inr (req, srcs, s2)"
    and gen: "tr_GenerateTransformation env req srcs = Inr content"
    and save: "tr_CreateNote env = None"
    and ty: "req_Type req = ''insight''"
  shows "handleTransform env nb uid bound s =
     (Response 200 (NoteJSON ((buildNote nb req content (initialMetadata req))
                      \<lparr>note_ID := tr_NoteID env, note_CreatedAt := tr_NoteTime env\<rparr>)),
      injectInsight env nb content
        (s2\<lparr>db_notes := (buildNote nb req content (initialMetadata req))
                           \<lparr>note_ID := tr_NoteID env, note_CreatedAt := tr_NoteTime env\<rparr>
                         # db_notes s,
            calls := calls s @ requestTrace env nb uid s req srcs
              @ CallCreateNote (buildNote nb req content (initialMetadata req))
              # logTrace env uid\<rparr>))"
proof -
  have md: "secondaryMetadata env req content = initialMetadata req"
    by (simp add: secondaryMetadata_def ty)
  have tr: "secondaryTrace env uid req content = []"
    by (simp add: secondaryTrace_def ty)
  show ?thesis
    by (simp add: handle_generated [OF prep gen] completeTransform_def secondary_eq
        persistNote_insight [OF save ty] prepare_frame(1,4) [OF prep] requestTrace_def md tr)
qed

lemma dom_initialMetadata: "dom (initialMetadata req) = {''length'', ''format''}"
  by (auto simp: initialMetadata_def)

section \<open>An insight report as a new source\<close>

lemma injectInsight_created:
  assumes "tr_CreateSource env = None"
  shows "length (sourcesOf nb (injectInsight env nb content s)) = Suc (length (sourcesOf nb s))"
    and "mset (map src_ID (sourcesOf nb (injectInsight env nb content s))) =
           add_mset (tr_SourceID env) (mset (map src_ID (sourcesOf nb s)))"
    and "mset (map src_Name (sourcesOf nb (injectInsight env nb content s))) =
           add_mset insight_source_name (mset (map src_Name (sourcesOf nb s)))"
    and "mset (map src_Content (sourcesOf nb (injectInsight env nb content s))) =
           add_mset content (mset (map src_Content (sourcesOf nb s)))"
proof -
  let ?upd = "\<lambda>i n src. if src_ID src = i then src\<lparr>src_ChunkCount := n\<rparr> else src"
  have f: "filter (\<lambda>src. src_NotebookID src = nb) (map (?upd i n) xs) =
           map (?upd i n) (filter (\<lambda>src. src_NotebookID src = nb) xs)"
    for i n and xs :: "Source list"
    by (induction xs) auto
  have g: "map src_ID (map (?upd i n) xs) = map src_ID xs"
          "map src_Name (map (?upd i n) xs) = map src_Name xs"
          "map src_Content (map (?upd i n) xs) = map src_Content xs"
          "length (map (?upd i n) xs) = length xs"
    for i n and xs :: "Source list"
    by (induction xs) auto
  show "length (sourcesOf nb (injectInsight env nb content s)) = Suc (length (sourcesOf nb s))"
    and "mset (map src_ID (sourcesOf nb (injectInsight env nb content s))) =
           add_mset (tr_SourceID env) (mset (map src_ID (sourcesOf nb s)))"
    and "mset (map src_Name (sourcesOf nb (injectInsight env nb content s))) =
           add_mset insight_source_name (mset (map src_Name (sourcesOf nb s)))"
    and "mset (map src_Content (sourcesOf nb (injectInsight env nb content s))) =
           add_mset content (mset (map src_Content (sourcesOf nb s)))"
    using assms
    by (cases "tr_IngestText env"; cases "tr_UpdateSourceChunkCount env";
        simp add: injectInsight_def CreateSource_def IngestText_def UpdateSourceChunkCount_def
          record_call_def Let_def sourcesOf_mset sourcesOf_length f g
          del: map_map mset_map)+
qed

lemma injectInsight_not_created:
  assumes "tr_CreateSource env = Some err"
  shows "db_sources (injectInsight env nb content s) = db_sources s"
  using assms by (simp add: injectInsight_def CreateSource_def record_call_def Let_def)

lemma injectInsight_frame:
  "db_notes (injectInsight env nb content s) = db_notes s"
  "calls (injectInsight env nb content s) = calls s @ insightTrace env s nb content"
  "vectorStore (injectInsight env nb content s) =
     vectorStore s
     @ (if tr_CreateSource env = None \<and> tr_IngestText env = None
        then insightDocuments s nb content else [])"
  by (cases "tr_CreateSource env"; cases "tr_IngestText env";
      cases "tr_UpdateSourceChunkCount env";
      simp add: injectInsight_def CreateSource_def IngestText_def UpdateSourceChunkCount_def
        record_call_def Let_def insightTrace_def insightDocuments_def)+

lemma filter_insightTrace:
  "filter (isIngestFor nb) (insightTrace env s nb content) =
     (if tr_CreateSource env = None
      then [CallIngestText nb insight_source_name content] else [])"
  by (simp add: insightTrace_def split: option.splits)

lemma last_insightTrace:
  "tr_CreateSource env = Some err \<Longrightarrow>
     last (insightTrace env s nb content) = Errorf (FailedToCreateInsightSource err)"
  "tr_CreateSource env = None \<Longrightarrow> tr_IngestText env = Some e \<Longrightarrow>
     last (insightTrace env s nb content) = Errorf (FailedToIngestInsightText e)"
  by (simp_all add: insightTrace_def)

text \<open>Filtering the new calls of a state whose log extends the old one.\<close>

lemma filter_newCalls:
  assumes "take (length (calls s)) (calls s') = calls s"
  shows "filter P (calls s') = filter P (calls s) @ filter P (newCalls s s')"
proof -
  have "calls s' = take (length (calls s)) (calls s') @ drop (length (calls s)) (calls s')"
    by simp
  then have "calls s' = calls s @ newCalls s s'" by (simp add: assms newCalls_def)
  then show ?thesis by (metis filter_append)
qed

section \<open>Deleting a source, step by step\<close>

lemma handleDeleteSource_index:
  "vectorStore (snd (handleDeleteSource env uid sid s)) = vectorStore s"
  "loadedNotebooks (snd (handleDeleteSource env uid sid s)) = loadedNotebooks s"
  by (simp_all add: handleDeleteSource_def GetSource_def checkNotebookAccess_def
        GetNotebook_def DeleteSource_def record_call_def Let_def
        split: option.splits sum.splits prod.splits)

lemma handleDeleteSource_204:
  "status (fst (handleDeleteSource env uid sid s)) = 204 \<Longrightarrow>
   db_sources (snd (handleDeleteSource env uid sid s)) =
     filter (\<lambda>src. src_ID src \<noteq> sid) (db_sources s)"
  by (auto simp: handleDeleteSource_def GetSource_def checkNotebookAccess_def
        GetNotebook_def DeleteSource_def record_call_def Let_def
        split: option.splits sum.splits prod.splits if_splits)

section \<open>Facts about the example data\<close>

lemma demoServer_simps:
  "cfg_AllowMultipleNotesOfSameType demoServer = False"
  "splitter demoServer = (\<lambda>c. [c])"
  "db_sources demoServer = demoSources"
  "db_notes demoServer = []"
  "vectorStore demoServer = []"
  "loadedNotebooks demoServer n = False"
  "calls demoServer = []"
  "db_notebooks demoServer =
     [\<lparr>nb_ID = ''n1'', nb_UserID = ''u1''\<rparr>, \<lparr>nb_ID = ''n2'', nb_UserID = ''u1''\<rparr>]"
  by (simp_all add: demoServer_def)

lemma demoServerWithSummary_simps:
  "cfg_AllowMultipleNotesOfSameType demoServerWithSummary = False"
  "map note_ID (db_notes demoServerWithSummary) = [''note-0'']"
  "map note_Type (notesOf ''n1'' demoServerWithSummary) = [''summary'']"
  "list_ex (\<lambda>note. note_Type note = ''summary'') (notesOf ''n1'' demoServerWithSummary)"
  by (simp_all add: demoServerWithSummary_def demoServer_def notesOf_def
        orderByCreatedAtDesc_def)

lemma sourcesOf_demo:
  "sourcesOf ''n1'' demoServer = [demoSources ! 1, demoSources ! 2, demoSources ! 3]"
  by (simp add: sourcesOf_def demoServer_def demoSources_def orderByCreatedAtDesc_def)

lemma loadOk_simps: "load_ListSources loadOk = None" "load_IngestText loadOk k = None"
  by (simp_all add: loadOk_def)

lemma demoEnv_simps:
  "tr_ListNotes demoEnv = None" "tr_ListSources demoEnv = None"
  "tr_CreateNote demoEnv = None" "tr_CreateSource demoEnv = None"
  "tr_IngestText demoEnv = None" "tr_NoteID demoEnv = ''note-1''"
  "tr_SourceID demoEnv = ''s5''" "tr_load demoEnv = loadOk"
  "tr_GenerateTransformation demoEnv req srcs = Inr ''TEXT''"
  "tr_ParsePPTSlides demoEnv content = demoSlides"
  "tr_GenerateImage demoEnv 0 p = Inr ''data/uploads/a.png''"
  "tr_GenerateImage demoEnv (Suc 0) p = Inl ''quota exceeded''"
  "tr_GenerateImage demoEnv (Suc (Suc 0)) p = Inr ''data/uploads/c.png''"
  by (simp_all add: demoEnv_def)

lemma demoVariants_simps:
  "tr_ListNotes demoEnvTextFails = None" "tr_ListSources demoEnvTextFails = None"
  "tr_GenerateTransformation demoEnvTextFails req srcs = Inl ''model timeout''"
  "tr_ListNotes demoEnvImageFails = None" "tr_ListSources demoEnvImageFails = None"
  "tr_GenerateTransformation demoEnvImageFails req srcs = Inr ''TEXT''"
  "tr_GenerateImage demoEnvImageFails k p = Inl ''quota exceeded''"
  "tr_CreateNote demoEnvImageFails = None" "tr_NoteID demoEnvImageFails = ''note-1''"
  "tr_ListNotes demoEnvElevenSlides = None" "tr_ListSources demoEnvElevenSlides = None"
  "tr_GenerateTransformation demoEnvElevenSlides req srcs = Inr ''TEXT''"
  "tr_ParsePPTSlides demoEnvElevenSlides content =
     replicate 11 \<lparr>slide_Style = ''flat'', slide_Content = ''page''\<rparr>"
  "tr_CreateNote demoEnvElevenSlides = None" "tr_NoteID demoEnvElevenSlides = ''note-1''"
  by (simp_all add: demoEnvTextFails_def demoEnvImageFails_def demoEnvElevenSlides_def
        demoEnv_def)

lemma demoFailing_simps:
  "tr_ListNotes demoEnvListNotesFails = Some ''database is locked''"
  "tr_ListNotes demoEnvImageAndSaveFail = None" "tr_ListSources demoEnvImageAndSaveFail = None"
  "tr_GenerateTransformation demoEnvImageAndSaveFail req srcs = Inr ''TEXT''"
  "tr_GenerateImage demoEnvImageAndSaveFail k p = Inl ''quota exceeded''"
  "tr_CreateNote demoEnvImageAndSaveFail = Some ''disk full''"
  "tr_ListNotes demoEnvElevenSlidesSaveFails = None"
  "tr_ListSources demoEnvElevenSlidesSaveFails = None"
  "tr_GenerateTransformation demoEnvElevenSlidesSaveFails req srcs = Inr ''TEXT''"
  "tr_ParsePPTSlides demoEnvElevenSlidesSaveFails content =
     replicate 11 \<lparr>slide_Style = ''flat'', slide_Content = ''page''\<rparr>"
  "tr_CreateNote demoEnvElevenSlidesSaveFails = Some ''disk full''"
  "tr_ListNotes demoEnvCreateSourceFails = None" "tr_ListSources demoEnvCreateSourceFails = None"
  "tr_GenerateTransformation demoEnvCreateSourceFails req srcs = Inr ''TEXT''"
  "tr_CreateNote demoEnvCreateSourceFails = None"
  "tr_CreateSource demoEnvCreateSourceFails = Some ''disk full''"
  "tr_load demoEnvCreateSourceFails = loadOk"
  by (simp_all add: demoEnvListNotesFails_def demoEnvImageAndSaveFail_def
        demoEnvImageFails_def demoEnvElevenSlidesSaveFails_def demoEnvElevenSlides_def
        demoEnvCreateSourceFails_def demoEnv_def)

lemma demoSlidesSaveFails_simps:
  "tr_ListNotes demoEnvSlidesSaveFails = None" "tr_ListSources demoEnvSlidesSaveFails = None"
  "tr_GenerateTransformation demoEnvSlidesSaveFails req srcs = Inr ''TEXT''"
  "tr_CreateNote demoEnvSlidesSaveFails = Some ''disk full''"
  "tr_ParsePPTSlides demoEnvSlidesSaveFails content = demoSlides"
  "tr_GenerateImage demoEnvSlidesSaveFails 0 p = Inr ''data/uploads/a.png''"
  "tr_GenerateImage demoEnvSlidesSaveFails (Suc 0) p = Inl ''quota exceeded''"
  "tr_GenerateImage demoEnvSlidesSaveFails (Suc (Suc 0)) p = Inr ''data/uploads/c.png''"
  by (simp_all add: demoEnvSlidesSaveFails_def demoEnv_def)

lemma demoResolved_simps:
  "req_Type (demoResolved t) = t" "req_Type (demoRequest t) = t"
  "req_Length (demoResolved t) = ''short''" "req_Format (demoResolved t) = ''markdown''"
  "req_SourceIDs (demoResolved t) = [''s3'', ''s2'', ''s1'']"
  by (simp_all add: demoResolved_def demoRequest_def)

lemma web_path_demo:
  "web_path ''data/uploads/a.png'' = ''/api/files/a.png''"
  "web_path ''data/uploads/c.png'' = ''/api/files/c.png''"
  by (simp_all add: web_path_def filepath_Base_def)

lemma demo_prepared:
  assumes "tr_ListNotes env = None" and "tr_ListSources env = None"
  shows "\<exists>s2. prepareTransform env ''n1'' (Inr (demoRequest t)) demoServer =
           Inr (demoResolved t, sourcesOf ''n1'' demoServer, s2)"
proof -
  have "resolveSources (demoRequest t) (sourcesOf ''n1'' demoServer) =
          (sourcesOf ''n1'' demoServer, demoResolved t)"
    by (simp add: resolveSources_def demoRequest_def demoResolved_def sourcesOf_demo
          demoSources_def)
  moreover have "sourcesOf ''n1'' demoServer \<noteq> []" by (simp add: sourcesOf_demo)
  moreover have "notesOf ''n1'' demoServer = []"
    by (simp add: notesOf_def demoServer_def orderByCreatedAtDesc_Nil)
  ultimately show ?thesis
    using assms by (intro prepare_ok) simp_all
qed

lemma demoLoaded_fields:
  "vectorStore demoLoaded =
     [\<lparr>doc_NotebookID = ''n1'', doc_SourceName = ''c.txt'', doc_Text = ''gamma''\<rparr>,
      \<lparr>doc_NotebookID = ''n1'', doc_SourceName = ''a.txt'', doc_Text = ''alpha''\<rparr>]"
  "db_sources demoLoaded = demoSources"
  "db_notebooks demoLoaded = db_notebooks demoServer"
proof -
  have a: "\<not> loadedNotebooks demoServer ''n1''" by (simp add: demoServer_def)
  have b: "load_ListSources loadOk = None" by (simp add: loadOk_def)
  show "vectorStore demoLoaded =
     [\<lparr>doc_NotebookID = ''n1'', doc_SourceName = ''c.txt'', doc_Text = ''gamma''\<rparr>,
      \<lparr>doc_NotebookID = ''n1'', doc_SourceName = ''a.txt'', doc_Text = ''alpha''\<rparr>]"
    by (simp add: demoLoaded_def load_sweep [OF a b] sourcesOf_demo demoSources_def
          loadOk_simps demoServer_simps documentsOf_def)
  show "db_sources demoLoaded = demoSources"
    by (simp add: demoLoaded_def load_sweep [OF a b] demoServer_simps)
  show "db_notebooks demoLoaded = db_notebooks demoServer"
    by (simp add: demoLoaded_def load_sweep [OF a b])
qed

lemma demo_index_loaded:
  "vectorStore (ensureVectorIndex loadOk ''n1'' demoServer) = vectorStore demoLoaded"
proof -
  have a: "\<not> loadedNotebooks demoServer ''n1''" by (simp add: demoServer_def)
  show ?thesis
    by (simp add: ensureVectorIndex_eq demoLoaded_def load_sweep [OF a loadOk_simps(1)]
          demoServer_simps loadOk_simps)
qed

lemma delete_demo:
  "status (fst (handleDeleteSource delOk ''u1'' ''s1'' demoLoaded)) = 204"
  by (simp add: handleDeleteSource_def GetSource_def checkNotebookAccess_def GetNotebook_def
        DeleteSource_def record_call_def Let_def delOk_def demoLoaded_fields demoSources_def
        demoServer_simps)

lemma demo_slide_urls:
  "successfulSlideURLs demoEnv demoSlides 0 demoSlides =
     [''/api/files/a.png'', ''/api/files/c.png'']"
  "failedSlideLogs demoEnv demoSlides 0 demoSlides =
     [Errorf (FailedToGenerateSlide 2 ''quota exceeded'')]"
  by (simp_all add: successfulSlideURLs_def failedSlideLogs_def demoSlides_def demoEnv_simps
        web_path_demo)

lemma demo_slide_urls_save_fails:
  "successfulSlideURLs demoEnvSlidesSaveFails demoSlides 0 demoSlides =
     [''/api/files/a.png'', ''/api/files/c.png'']"
  by (simp add: successfulSlideURLs_def demoSlides_def demoSlidesSaveFails_simps web_path_demo)

section \<open>Index lifecycle\<close>

text \<open>
  C1, as the code has it. The load of a notebook's index is lazy and happens at most once.
  A call for a notebook that is not marked loaded lists the notebook's sources. When the
  listing succeeds, the call hands every source with non-empty content to the ingestion,
  in the order of the listing, marks the notebook loaded and returns no error. When the
  listing fails, the call returns that error, ingests nothing and leaves the notebook not
  loaded, so that the next call lists again. A call for a notebook that is marked loaded
  returns at once without error and leaves the server as it is: no listing, no
  ingestion. A loaded notebook stays loaded whatever calls follow. Calls of concurrent
  requests run one after the other under the mutex; for every such sequence of calls,
  for any notebooks and any answers of the outside world, the ingestion calls issued for
  a notebook are those of exactly one sweep if the sequence takes the notebook from not
  loaded to loaded, and none otherwise.
\<close>

theorem index_load_at_most_once:
  "(\<not> loadedNotebooks s nb \<and> load_ListSources env = None \<longrightarrow>
      fst (loadNotebookVectorIndex env nb s) = None \<and>
      loadedNotebooks (snd (loadNotebookVectorIndex env nb s)) nb \<and>
      newCalls s (snd (loadNotebookVectorIndex env nb s)) =
        CallStoreListSources nb # sweepTrace (load_IngestText env) nb 0 (sourcesOf nb s) \<and>
      filter (isIngestFor nb) (newCalls s (snd (loadNotebookVectorIndex env nb s))) =
        sweepCalls nb (sourcesOf nb s))
   \<and> (\<forall>err. \<not> loadedNotebooks s nb \<and> load_ListSources env = Some err \<longrightarrow>
      fst (loadNotebookVectorIndex env nb s) = Some (''failed to list sources: '' @ err) \<and>
      \<not> loadedNotebooks (snd (loadNotebookVectorIndex env nb s)) nb \<and>
      newCalls s (snd (loadNotebookVectorIndex env nb s)) = [CallStoreListSources nb] \<and>
      vectorStore (snd (loadNotebookVectorIndex env nb s)) = vectorStore s)
   \<and> (loadedNotebooks s nb \<longrightarrow> loadNotebookVectorIndex env nb s = (None, s))
   \<and> (loadedNotebooks s nb \<longrightarrow> loadedNotebooks (runLoads cs s) nb)
   \<and> filter (isIngestFor nb) (calls (runLoads cs s)) =
        filter (isIngestFor nb) (calls s)
        @ (if \<not> loadedNotebooks s nb \<and> loadedNotebooks (runLoads cs s) nb
           then sweepCalls nb (sourcesOf nb s) else [])"
  by (simp add: load_sweep load_loaded load_list_fails runLoads_loaded runLoads_ingest
        filter_sweepTrace newCalls_def)

theorem index_load_at_most_once_witness:
  "\<not> loadedNotebooks demoServer ''n1'' \<and> load_ListSources loadOk = None \<and>
   fst (loadNotebookVectorIndex loadOk ''n1'' demoServer) = None \<and>
   loadedNotebooks demoLoaded ''n1'' \<and>
   newCalls demoServer demoLoaded =
     [CallStoreListSources ''n1'', CallIngestText ''n1'' ''c.txt'' ''gamma'',
      CallIngestText ''n1'' ''a.txt'' ''alpha''] \<and>
   loadNotebookVectorIndex loadOk ''n1'' demoLoaded = (None, demoLoaded) \<and>
   load_ListSources loadListFails = Some ''database is locked'' \<and>
   fst (loadNotebookVectorIndex loadListFails ''n1'' demoServer) =
     Some ''failed to list sources: database is locked'' \<and>
   filter (isIngestFor ''n1'')
     (calls (runLoads [(''n1'', loadListFails), (''n1'', loadOk), (''n2'', loadOk),
                       (''n1'', loadOk), (''n1'', loadOk)] demoServer)) =
     [CallIngestText ''n1'' ''c.txt'' ''gamma'', CallIngestText ''n1'' ''a.txt'' ''alpha'']"
proof -
  let ?cs = "[(''n1'', loadListFails), (''n1'', loadOk), (''n2'', loadOk), (''n1'', loadOk),
              (''n1'', loadOk)]"
  let ?s1 = "snd (loadNotebookVectorIndex loadListFails ''n1'' demoServer)"
  have fresh: "\<not> loadedNotebooks demoServer ''n1''" by (simp add: demoServer_simps)
  have ok: "load_ListSources loadOk = None" by (simp add: loadOk_simps)
  have bad: "load_ListSources loadListFails = Some ''database is locked''"
    by (simp add: loadListFails_def)
  note first = index_load_at_most_once [of demoServer "''n1''" loadOk ?cs]
  note failed = index_load_at_most_once [of demoServer "''n1''" loadListFails ?cs]
  note retry = index_load_at_most_once [of ?s1 "''n1''" loadOk "[]"]
  note again = index_load_at_most_once [of demoLoaded "''n1''" loadOk "[]"]
  have tr: "sweepTrace (load_IngestText loadOk) ''n1'' 0 (sourcesOf ''n1'' demoServer) =
      [CallIngestText ''n1'' ''c.txt'' ''gamma'', CallIngestText ''n1'' ''a.txt'' ''alpha'']"
    by (simp add: sourcesOf_demo demoSources_def loadOk_simps)
  have sc: "sweepCalls ''n1'' (sourcesOf ''n1'' demoServer) =
      [CallIngestText ''n1'' ''c.txt'' ''gamma'', CallIngestText ''n1'' ''a.txt'' ''alpha'']"
    by (simp add: sweepCalls_def sourcesOf_demo demoSources_def)
  have loaded1: "loadedNotebooks demoLoaded ''n1''"
    using first fresh ok unfolding demoLoaded_def by blast
  have unloaded: "\<not> loadedNotebooks ?s1 ''n1''"
    using failed fresh bad by blast
  have loaded2: "loadedNotebooks (snd (loadNotebookVectorIndex loadOk ''n1'' ?s1)) ''n1''"
    using retry unloaded ok by blast
  have fin: "loadedNotebooks (runLoads ?cs demoServer) ''n1''"
    using index_load_at_most_once
            [of "snd (loadNotebookVectorIndex loadOk ''n1'' ?s1)" "''n1''" loadOk
               "[(''n2'', loadOk), (''n1'', loadOk), (''n1'', loadOk)]"] loaded2
    by simp
  show ?thesis
    using first failed again fresh ok bad loaded1 fin
    by (simp add: tr sc demoServer_simps demoLoaded_def [symmetric])
qed

text \<open>
  C1 as stated fails: the first call for notebook \<open>n1\<close> meets a listing that fails. It
  returns the error and does not mark the notebook loaded; the call after it does not
  return at once but lists the sources and ingests them.
\<close>

theorem index_load_lists_again_after_failed_listing:
  "fst (loadNotebookVectorIndex loadListFails ''n1'' demoServer) =
     Some ''failed to list sources: database is locked''
   \<and> \<not> loadedNotebooks (snd (loadNotebookVectorIndex loadListFails ''n1'' demoServer)) ''n1''
   \<and> newCalls (snd (loadNotebookVectorIndex loadListFails ''n1'' demoServer))
        (snd (loadNotebookVectorIndex loadOk ''n1''
           (snd (loadNotebookVectorIndex loadListFails ''n1'' demoServer)))) =
       [CallStoreListSources ''n1'', CallIngestText ''n1'' ''c.txt'' ''gamma'',
        CallIngestText ''n1'' ''a.txt'' ''alpha'']"
proof -
  let ?s1 = "demoServer\<lparr>calls := calls demoServer @ [CallStoreListSources ''n1'']\<rparr>"
  have fresh: "\<not> loadedNotebooks demoServer ''n1''" by (simp add: demoServer_simps)
  have bad: "load_ListSources loadListFails = Some ''database is locked''"
    by (simp add: loadListFails_def)
  have one: "loadNotebookVectorIndex loadListFails ''n1'' demoServer =
               (Some ''failed to list sources: database is locked'', ?s1)"
    using load_list_fails [OF fresh bad] by simp
  have still: "\<not> loadedNotebooks ?s1 ''n1''" by (simp add: demoServer_simps)
  have src: "sourcesOf ''n1'' ?s1 = sourcesOf ''n1'' demoServer" by (simp add: sourcesOf_def)
  have tr: "sweepTrace (load_IngestText loadOk) ''n1'' 0 (sourcesOf ''n1'' demoServer) =
      [CallIngestText ''n1'' ''c.txt'' ''gamma'', CallIngestText ''n1'' ''a.txt'' ''alpha'']"
    by (simp add: sourcesOf_demo demoSources_def loadOk_simps)
  have two: "newCalls ?s1 (snd (loadNotebookVectorIndex loadOk ''n1'' ?s1)) =
      CallStoreListSources ''n1''
      # sweepTrace (load_IngestText loadOk) ''n1'' 0 (sourcesOf ''n1'' ?s1)"
    by (simp add: load_sweep [OF still loadOk_simps(1)] newCalls_def)
  show ?thesis
    unfolding one using two still by (simp add: src tr)
qed

text \<open>
  C7. During the sweep of a notebook (the notebook is not loaded and its sources have been
  listed), a failed ingestion of one source neither ends the sweep nor becomes the result
  of the call: whatever the ingestions answer, the call returns no error, every source
  with non-empty content is handed to the ingestion, a failure shows only as a log line
  after the call that failed, and the notebook is marked loaded. The index receives the
  documents of the sources whose ingestion succeeded only, so the notebook can be marked
  loaded over an incomplete index.
\<close>

theorem failed_ingest_does_not_abort_sweep:
  assumes "\<not> loadedNotebooks s nb" and "load_ListSources env = None"
  shows "fst (loadNotebookVectorIndex env nb s) = None
       \<and> loadedNotebooks (snd (loadNotebookVectorIndex env nb s)) nb
       \<and> newCalls s (snd (loadNotebookVectorIndex env nb s)) =
           CallStoreListSources nb # sweepTrace (load_IngestText env) nb 0 (sourcesOf nb s)
       \<and> filter (isIngestFor nb) (newCalls s (snd (loadNotebookVectorIndex env nb s))) =
           sweepCalls nb (sourcesOf nb s)
       \<and> vectorStore (snd (loadNotebookVectorIndex env nb s)) =
           vectorStore s
           @ sweepDocuments (splitter s) (load_IngestText env) nb 0 (sourcesOf nb s)"
  by (simp add: load_sweep [OF assms] newCalls_def filter_sweepTrace)

theorem failed_ingest_does_not_abort_sweep_witness:
  "\<not> loadedNotebooks demoServer ''n1'' \<and> load_ListSources loadFirstIngestFails = None
   \<and> fst (loadNotebookVectorIndex loadFirstIngestFails ''n1'' demoServer) = None
   \<and> loadedNotebooks (snd (loadNotebookVectorIndex loadFirstIngestFails ''n1'' demoServer)) ''n1''
   \<and> newCalls demoServer (snd (loadNotebookVectorIndex loadFirstIngestFails ''n1'' demoServer)) =
       [CallStoreListSources ''n1'',
        CallIngestText ''n1'' ''c.txt'' ''gamma'',
        Errorf (FailedToLoadSource ''c.txt'' ''embedding failed''),
        CallIngestText ''n1'' ''a.txt'' ''alpha'']
   \<and> vectorStore (snd (loadNotebookVectorIndex loadFirstIngestFails ''n1'' demoServer)) =
       [\<lparr>doc_NotebookID = ''n1'', doc_SourceName = ''a.txt'', doc_Text = ''alpha''\<rparr>]"
proof -
  have a: "\<not> loadedNotebooks demoServer ''n1''" by (simp add: demoServer_simps)
  have b: "load_ListSources loadFirstIngestFails = None" by (simp add: loadFirstIngestFails_def)
  have t: "sweepTrace (load_IngestText loadFirstIngestFails) ''n1'' 0 (sourcesOf ''n1'' demoServer)
      = [CallIngestText ''n1'' ''c.txt'' ''gamma'',
         Errorf (FailedToLoadSource ''c.txt'' ''embedding failed''),
         CallIngestText ''n1'' ''a.txt'' ''alpha'']"
    by (simp add: sourcesOf_demo demoSources_def loadFirstIngestFails_def)
  have d: "sweepDocuments (\<lambda>c. [c]) (load_IngestText loadFirstIngestFails) ''n1'' 0
             (sourcesOf ''n1'' demoServer)
      = [\<lparr>doc_NotebookID = ''n1'', doc_SourceName = ''a.txt'', doc_Text = ''alpha''\<rparr>]"
    by (simp add: sourcesOf_demo demoSources_def loadFirstIngestFails_def documentsOf_def)
  show ?thesis
    using failed_ingest_does_not_abort_sweep [OF a b] a b by (simp add: t d demoServer_simps)
qed

section \<open>Deleting a source\<close>

text \<open>
  C8, as the code has it. Deleting a source never touches the vector index or the loaded
  flags: whatever the outcome of the request, the index afterwards is the index before,
  so every chunk of the deleted source that was in the index is still there. A request
  answered with 204 removes the rows with the given id from the sources table, and
  nothing else.
\<close>

theorem delete_source_keeps_index:
  "vectorStore (snd (handleDeleteSource env uid sid s)) = vectorStore s
   \<and> loadedNotebooks (snd (handleDeleteSource env uid sid s)) = loadedNotebooks s
   \<and> (status (fst (handleDeleteSource env uid sid s)) = 204 \<longrightarrow>
        db_sources (snd (handleDeleteSource env uid sid s)) =
          filter (\<lambda>src. src_ID src \<noteq> sid) (db_sources s))"
  by (simp add: handleDeleteSource_index handleDeleteSource_204)

theorem delete_source_keeps_index_witness:
  "status (fst (handleDeleteSource delOk ''u1'' ''s1'' demoLoaded)) = 204
   \<and> map src_ID (db_sources (snd (handleDeleteSource delOk ''u1'' ''s1'' demoLoaded))) =
       [''s4'', ''s3'', ''s2'']
   \<and> vectorStore (snd (handleDeleteSource delOk ''u1'' ''s1'' demoLoaded)) =
       vectorStore demoLoaded"
  using delete_source_keeps_index [of delOk "''u1''" "''s1''" demoLoaded] delete_demo
  by (simp add: demoLoaded_fields demoSources_def)

text \<open>
  C8 as stated fails: after the index of notebook \<open>n1\<close> has been loaded, the owner
  deletes source \<open>s1\<close> (\<open>a.txt\<close>). The request is answered with 204 and the row is
  gone, and the chunk of \<open>a.txt\<close> is still in the index of \<open>n1\<close>.
\<close>

theorem chunks_outlive_deleted_source:
  "status (fst (handleDeleteSource delOk ''u1'' ''s1'' demoLoaded)) = 204
   \<and> find (\<lambda>src. src_ID src = ''s1'') (db_sources demoLoaded) \<noteq> None
   \<and> find (\<lambda>src. src_ID src = ''s1'')
        (db_sources (snd (handleDeleteSource delOk ''u1'' ''s1'' demoLoaded))) = None
   \<and> filter (\<lambda>d. doc_NotebookID d = ''n1'' \<and> doc_SourceName d = ''a.txt'')
        (vectorStore (snd (handleDeleteSource delOk ''u1'' ''s1'' demoLoaded))) =
       [\<lparr>doc_NotebookID = ''n1'', doc_SourceName = ''a.txt'', doc_Text = ''alpha''\<rparr>]"
proof -
  have "db_sources (snd (handleDeleteSource delOk ''u1'' ''s1'' demoLoaded)) =
          filter (\<lambda>src. src_ID src \<noteq> ''s1'') (db_sources demoLoaded)"
    using handleDeleteSource_204 [OF delete_demo] .
  then show ?thesis
    by (simp add: delete_demo handleDeleteSource_index demoLoaded_fields demoSources_def)
qed

section \<open>Transformations\<close>

text \<open>
  C2, as the code has it. When the deployment does not allow several notes of one type in
  a notebook and the notebook holds a note of the requested type, the handler stops at
  the check: when the listing of the notebook's notes succeeds the request is answered
  with 409 and the conflict message, and when the listing fails it is answered with 500.
  In both cases the only call after the index load is the listing of the notes: no text
  generation, no image generation, no call of CreateNote, and the notes table is as
  before.
\<close>

theorem duplicate_type_stops_request:
  assumes "\<not> cfg_AllowMultipleNotesOfSameType s"
    and "list_ex (\<lambda>note. note_Type note = req_Type req) (notesOf nb s)"
  shows "fst (handleTransform env nb uid (Inr req) s) =
           (case tr_ListNotes env of
              None \<Rightarrow> Response 409 (ErrorResponse msg_same_type_exists)
            | Some err \<Rightarrow> Response 500 (ErrorResponse ''Failed to check existing notes''))
       \<and> newCalls s (snd (handleTransform env nb uid (Inr req) s)) =
           indexLoadTrace (tr_load env) nb s @ [CallListNotes nb]
       \<and> filter isGeneration (newCalls s (snd (handleTransform env nb uid (Inr req) s))) = []
       \<and> filter isCreateNote (newCalls s (snd (handleTransform env nb uid (Inr req) s))) = []
       \<and> db_notes (snd (handleTransform env nb uid (Inr req) s)) = db_notes s"
  by (simp add: handleTransform_def prepare_check_stops [OF assms] record_call_def
        ensureVectorIndex_frame newCalls_def indexLoadTrace_quiet)

theorem duplicate_type_stops_request_witness:
  "\<not> cfg_AllowMultipleNotesOfSameType demoServerWithSummary
   \<and> list_ex (\<lambda>note. note_Type note = req_Type (demoRequest ''summary''))
        (notesOf ''n1'' demoServerWithSummary)
   \<and> tr_ListNotes demoEnv = None
   \<and> status (fst (handleTransform demoEnv ''n1'' ''u1'' (Inr (demoRequest ''summary''))
        demoServerWithSummary)) = 409
   \<and> map note_ID (db_notes (snd (handleTransform demoEnv ''n1'' ''u1''
        (Inr (demoRequest ''summary'')) demoServerWithSummary))) = [''note-0'']"
proof -
  have a: "\<not> cfg_AllowMultipleNotesOfSameType demoServerWithSummary"
    by (simp add: demoServerWithSummary_simps)
  have b: "list_ex (\<lambda>note. note_Type note = req_Type (demoRequest ''summary''))
        (notesOf ''n1'' demoServerWithSummary)"
    by (simp add: demoResolved_simps demoServerWithSummary_simps)
  have c: "tr_ListNotes demoEnv = None" by (simp add: demoEnv_simps)
  show ?thesis
    using duplicate_type_stops_request [OF a b, of demoEnv "''u1''"] a b c
    by (simp add: demoServerWithSummary_simps)
qed

text \<open>
  C2 as stated fails: notebook \<open>n1\<close> holds a summary, duplicates are not allowed, a
  summary is requested, and the listing of the notes fails. The answer is 500 with the
  message of the failed check, not a conflict.
\<close>

theorem duplicate_check_answers_500_when_listing_fails:
  "\<not> cfg_AllowMultipleNotesOfSameType demoServerWithSummary
   \<and> map note_Type (notesOf ''n1'' demoServerWithSummary) = [''summary'']
   \<and> fst (handleTransform demoEnvListNotesFails ''n1'' ''u1'' (Inr (demoRequest ''summary''))
        demoServerWithSummary) =
       Response 500 (ErrorResponse ''Failed to check existing notes'')"
proof -
  have a: "\<not> cfg_AllowMultipleNotesOfSameType demoServerWithSummary"
    by (simp add: demoServerWithSummary_simps)
  have b: "list_ex (\<lambda>note. note_Type note = req_Type (demoRequest ''summary''))
        (notesOf ''n1'' demoServerWithSummary)"
    by (simp add: demoResolved_simps demoServerWithSummary_simps)
  show ?thesis
    by (simp add: handleTransform_def prepare_check_stops [OF a b] demoFailing_simps
          demoServerWithSummary_simps)
qed

text \<open>
  C3. When the handler reaches the text generation and the generation fails, the request
  is answered with 500 and the message of the failure. The text generation is the last
  call of the request: no image is generated, CreateNote is not called, and the notes
  table is as before.
\<close>

theorem text_generation_failure_is_fatal:
  assumes "prepareTransform env nb bound s = Inr (req, srcs, s2)"
    and "tr_GenerateTransformation env req srcs = Inl err"
  shows "fst (handleTransform env nb uid bound s) =
           Response 500 (ErrorResponse (''Generation failed: '' @ err))
       \<and> newCalls s (snd (handleTransform env nb uid bound s)) =
           requestTrace env nb uid s req srcs
       \<and> filter isCreateNote (newCalls s (snd (handleTransform env nb uid bound s))) = []
       \<and> filter isImageCall (newCalls s (snd (handleTransform env nb uid bound s))) = []
       \<and> db_notes (snd (handleTransform env nb uid bound s)) = db_notes s"
proof -
  have "newCalls s (snd (handleTransform env nb uid bound s)) =
          requestTrace env nb uid s req srcs"
    by (simp add: handle_generation_failed [OF assms] prepare_frame [OF assms(1)] newCalls_def
        requestTrace_def)
  then show ?thesis
    by (simp add: handle_generation_failed [OF assms] prepare_frame [OF assms(1)]
          requestTrace_quiet)
qed

theorem text_generation_failure_is_fatal_witness:
  "status (fst (handleTransform demoEnvTextFails ''n1'' ''u1'' (Inr (demoRequest ''summary''))
     demoServer)) = 500
   \<and> db_notes (snd (handleTransform demoEnvTextFails ''n1'' ''u1''
        (Inr (demoRequest ''summary'')) demoServer)) = []
   \<and> filter isCreateNote (newCalls demoServer (snd (handleTransform demoEnvTextFails ''n1''
        ''u1'' (Inr (demoRequest ''summary'')) demoServer))) = []"
proof -
  obtain s2 where p: "prepareTransform demoEnvTextFails ''n1'' (Inr (demoRequest ''summary''))
      demoServer = Inr (demoResolved ''summary'', sourcesOf ''n1'' demoServer, s2)"
    using demo_prepared [of demoEnvTextFails "''summary''", OF demoVariants_simps(1,2)] ..
  show ?thesis
    using text_generation_failure_is_fatal [OF p demoVariants_simps(3), of "''u1''"]
    by (simp add: demoServer_simps requestTrace_quiet)
qed

text \<open>
  C4, as the code has it. An infograph request whose text generation succeeds and whose
  image generation fails with \<open>err\<close>: the handler makes the one image call and then
  hands exactly one note to the store, with empty text content and \<open>err\<close> under
  \<^verbatim>\<open>metadata.image_error\<close>. When the store accepts the note, the request is answered
  with 200 and that note, and the note is the row added to the notes table. When the
  store refuses the note, the request is answered with 500 and the notes table is as
  before.
\<close>

theorem infograph_image_failure_is_not_fatal:
  assumes prep: "prepareTransform env nb bound s = Inr (req, srcs, s2)"
    and gen: "tr_GenerateTransformation env req srcs = Inr content"
    and ty: "req_Type req = ''infograph''"
    and img: "tr_GenerateImage env 0 (infographPrompt content) = Inl err"
  shows "(let note = buildNote nb req content
                      ((initialMetadata req)(''image_error'' \<mapsto> MString err));
              s' = snd (handleTransform env nb uid bound s)
          in note_Content note = [] \<and>
             note_Metadata note ''image_error'' = Some (MString err) \<and>
             filter isImageCall (newCalls s s') =
               [CallGenerateImage image_model (infographPrompt content) uid] \<and>
             filter isCreateNote (newCalls s s') = [CallCreateNote note] \<and>
             fst (handleTransform env nb uid bound s) =
               (case tr_CreateNote env of
                  None \<Rightarrow>
                    Response 200
                      (NoteJSON (note\<lparr>note_ID := tr_NoteID env,
                                      note_CreatedAt := tr_NoteTime env\<rparr>))
                | Some e \<Rightarrow> Response 500 (ErrorResponse ''Failed to save note'')) \<and>
             db_notes s' =
               (case tr_CreateNote env of
                  None \<Rightarrow>
                    note\<lparr>note_ID := tr_NoteID env, note_CreatedAt := tr_NoteTime env\<rparr>
                    # db_notes s
                | Some e \<Rightarrow> db_notes s))"
proof -
  have md: "secondaryMetadata env req content =
              (initialMetadata req)(''image_error'' \<mapsto> MString err)"
    by (simp add: secondaryMetadata_def ty img)
  have tr: "secondaryTrace env uid req content =
              [CallGenerateImage image_model (infographPrompt content) uid,
               Errorf (FailedToGenerateInfographicImage err)]"
    by (simp add: secondaryTrace_def ty img)
  have ni: "req_Type req \<noteq> ''insight''" by (simp add: ty)
  show ?thesis
  proof (cases "tr_CreateNote env")
    case None
    show ?thesis
      by (simp add: Let_def handle_saved_plain [OF prep gen None ni] md tr newCalls_def
            requestTrace_quiet logTrace_quiet buildNote_def ty None)
  next
    case (Some e)
    show ?thesis
      by (simp add: Let_def handle_not_saved [OF prep gen Some] md tr newCalls_def
            requestTrace_quiet buildNote_def ty Some prepare_frame(1) [OF prep])
  qed
qed

theorem infograph_image_failure_is_not_fatal_witness:
  "tr_GenerateImage demoEnvImageFails 0 (infographPrompt ''TEXT'') = Inl ''quota exceeded''
   \<and> tr_CreateNote demoEnvImageFails = None
   \<and> status (fst (handleTransform demoEnvImageFails ''n1'' ''u1''
        (Inr (demoRequest ''infograph'')) demoServer)) = 200
   \<and> map note_Content (db_notes (snd (handleTransform demoEnvImageFails ''n1'' ''u1''
        (Inr (demoRequest ''infograph'')) demoServer))) = [[]]
   \<and> map (\<lambda>n. note_Metadata n ''image_error'') (db_notes (snd (handleTransform
        demoEnvImageFails ''n1'' ''u1'' (Inr (demoRequest ''infograph'')) demoServer))) =
       [Some (MString ''quota exceeded'')]"
proof -
  obtain s2 where p: "prepareTransform demoEnvImageFails ''n1''
      (Inr (demoRequest ''infograph'')) demoServer =
        Inr (demoResolved ''infograph'', sourcesOf ''n1'' demoServer, s2)"
    using demo_prepared [of demoEnvImageFails "''infograph''", OF demoVariants_simps(4,5)] ..
  show ?thesis
    using infograph_image_failure_is_not_fatal
            [OF p demoVariants_simps(6) demoResolved_simps(1) demoVariants_simps(7), of "''u1''"]
    by (simp add: Let_def demoVariants_simps demoServer_simps)
qed

text \<open>
  C4 as stated fails: the text generation succeeds, the image generation fails, and the
  store then refuses the note. The request is answered with 500 and no note is stored.
\<close>

theorem infograph_not_saved_when_insert_fails:
  "tr_GenerateTransformation demoEnvImageAndSaveFail (demoResolved ''infograph'')
     (sourcesOf ''n1'' demoServer) = Inr ''TEXT''
   \<and> tr_GenerateImage demoEnvImageAndSaveFail 0 (infographPrompt ''TEXT'') =
       Inl ''quota exceeded''
   \<and> length (filter isImageCall (newCalls demoServer (snd (handleTransform
        demoEnvImageAndSaveFail ''n1'' ''u1'' (Inr (demoRequest ''infograph''))
        demoServer)))) = 1
   \<and> fst (handleTransform demoEnvImageAndSaveFail ''n1'' ''u1''
        (Inr (demoRequest ''infograph'')) demoServer) =
       Response 500 (ErrorResponse ''Failed to save note'')
   \<and> db_notes (snd (handleTransform demoEnvImageAndSaveFail ''n1'' ''u1''
        (Inr (demoRequest ''infograph'')) demoServer)) = []"
proof -
  obtain s2 where p: "prepareTransform demoEnvImageAndSaveFail ''n1''
      (Inr (demoRequest ''infograph'')) demoServer =
        Inr (demoResolved ''infograph'', sourcesOf ''n1'' demoServer, s2)"
    using demo_prepared [of demoEnvImageAndSaveFail "''infograph''", OF demoFailing_simps(2,3)]
    ..
  show ?thesis
    by (simp add: handle_not_saved [OF p demoFailing_simps(4) demoFailing_simps(6)]
          prepare_frame(1) [OF p] demoFailing_simps demoServer_simps newCalls_def
          requestTrace_quiet secondaryTrace_def demoResolved_simps)
qed

text \<open>
  C5, as the code has it. A slide-deck request whose generated text parses into more than
  10 slides: no image call is made; the handler hands exactly one note to the store,
  whose text content is the generated text, whose metadata holds the page-limit message
  under \<^verbatim>\<open>image_error\<close> and no \<^verbatim>\<open>slides\<close> entry. When the store accepts the note,
  the request is answered with 200 and the note is the row added to the notes table.
  When the store refuses the note, the request is answered with 500 and the notes table
  is as before.
\<close>

theorem ppt_over_cap_skips_images:
  assumes prep: "prepareTransform env nb bound s = Inr (req, srcs, s2)"
    and gen: "tr_GenerateTransformation env req srcs = Inr content"
    and ty: "req_Type req = ''ppt''"
    and cap: "length (tr_ParsePPTSlides env content) > 10"
  shows "(let note = buildNote nb req content
                      ((initialMetadata req)(''image_error'' \<mapsto> MString msg_ppt_page_limit));
              s' = snd (handleTransform env nb uid bound s)
          in filter isImageCall (newCalls s s') = [] \<and>
             filter isCreateNote (newCalls s s') = [CallCreateNote note] \<and>
             note_Content note = content \<and>
             note_Metadata note ''image_error'' = Some (MString msg_ppt_page_limit) \<and>
             note_Metadata note ''slides'' = None \<and>
             fst (handleTransform env nb uid bound s) =
               (case tr_CreateNote env of
                  None \<Rightarrow>
                    Response 200
                      (NoteJSON (note\<lparr>note_ID := tr_NoteID env,
                                      note_CreatedAt := tr_NoteTime env\<rparr>))
                | Some e \<Rightarrow> Response 500 (ErrorResponse ''Failed to save note'')) \<and>
             db_notes s' =
               (case tr_CreateNote env of
                  None \<Rightarrow>
                    note\<lparr>note_ID := tr_NoteID env, note_CreatedAt := tr_NoteTime env\<rparr>
                    # db_notes s
                | Some e \<Rightarrow> db_notes s))"
proof -
  have md: "secondaryMetadata env req content =
              (initialMetadata req)(''image_error'' \<mapsto> MString msg_ppt_page_limit)"
    by (simp add: secondaryMetadata_def ty cap)
  have tr: "secondaryTrace env uid req content =
              [Errorf (PptTooManySlides (length (tr_ParsePPTSlides env content)))]"
    by (simp add: secondaryTrace_def ty cap)
  have ni: "req_Type req \<noteq> ''insight''" by (simp add: ty)
  show ?thesis
  proof (cases "tr_CreateNote env")
    case None
    show ?thesis
      by (simp add: Let_def handle_saved_plain [OF prep gen None ni] md tr newCalls_def
            requestTrace_quiet logTrace_quiet buildNote_def ty initialMetadata_def None)
  next
    case (Some e)
    show ?thesis
      by (simp add: Let_def handle_not_saved [OF prep gen Some] md tr newCalls_def
            requestTrace_quiet buildNote_def ty Some initialMetadata_def
            prepare_frame(1) [OF prep])
  qed
qed

theorem ppt_over_cap_skips_images_witness:
  "length (tr_ParsePPTSlides demoEnvElevenSlides ''TEXT'') = 11
   \<and> tr_CreateNote demoEnvElevenSlides = None
   \<and> filter isImageCall (newCalls demoServer (snd (handleTransform demoEnvElevenSlides ''n1''
        ''u1'' (Inr (demoRequest ''ppt'')) demoServer))) = []
   \<and> status (fst (handleTransform demoEnvElevenSlides ''n1'' ''u1''
        (Inr (demoRequest ''ppt'')) demoServer)) = 200
   \<and> map note_Content (db_notes (snd (handleTransform demoEnvElevenSlides ''n1'' ''u1''
        (Inr (demoRequest ''ppt'')) demoServer))) = [''TEXT'']
   \<and> map (\<lambda>n. note_Metadata n ''image_error'') (db_notes (snd (handleTransform
        demoEnvElevenSlides ''n1'' ''u1'' (Inr (demoRequest ''ppt'')) demoServer))) =
       [Some (MString msg_ppt_page_limit)]"
proof -
  obtain s2 where p: "prepareTransform demoEnvElevenSlides ''n1'' (Inr (demoRequest ''ppt''))
      demoServer = Inr (demoResolved ''ppt'', sourcesOf ''n1'' demoServer, s2)"
    using demo_prepared [of demoEnvElevenSlides "''ppt''", OF demoVariants_simps(10,11)] ..
  have cap: "length (tr_ParsePPTSlides demoEnvElevenSlides ''TEXT'') > 10"
    by (simp add: demoVariants_simps)
  show ?thesis
    using ppt_over_cap_skips_images
            [OF p demoVariants_simps(12) demoResolved_simps(1) cap, of "''u1''"]
    by (simp add: Let_def demoVariants_simps demoServer_simps)
qed

text \<open>
  C5 as stated fails: the generated text parses into 11 slides and the store refuses the
  note. No image is generated, the request is answered with 500, and the generated text
  is not persisted: the notes table stays empty.
\<close>

theorem ppt_text_not_saved_when_insert_fails:
  "tr_GenerateTransformation demoEnvElevenSlidesSaveFails (demoResolved ''ppt'')
     (sourcesOf ''n1'' demoServer) = Inr ''TEXT''
   \<and> length (tr_ParsePPTSlides demoEnvElevenSlidesSaveFails ''TEXT'') = 11
   \<and> filter isImageCall (newCalls demoServer (snd (handleTransform
        demoEnvElevenSlidesSaveFails ''n1'' ''u1'' (Inr (demoRequest ''ppt'')) demoServer))) = []
   \<and> fst (handleTransform demoEnvElevenSlidesSaveFails ''n1'' ''u1''
        (Inr (demoRequest ''ppt'')) demoServer) =
       Response 500 (ErrorResponse ''Failed to save note'')
   \<and> db_notes (snd (handleTransform demoEnvElevenSlidesSaveFails ''n1'' ''u1''
        (Inr (demoRequest ''ppt'')) demoServer)) = []"
proof -
  obtain s2 where p: "prepareTransform demoEnvElevenSlidesSaveFails ''n1''
      (Inr (demoRequest ''ppt'')) demoServer =
        Inr (demoResolved ''ppt'', sourcesOf ''n1'' demoServer, s2)"
    using demo_prepared [of demoEnvElevenSlidesSaveFails "''ppt''", OF demoFailing_simps(7,8)]
    ..
  show ?thesis
    by (simp add: handle_not_saved [OF p demoFailing_simps(9) demoFailing_simps(11)]
          prepare_frame(1) [OF p] demoFailing_simps demoServer_simps newCalls_def
          requestTrace_quiet secondaryTrace_def demoResolved_simps)
qed

text \<open>
  C6, as the code has it. A slide-deck request whose generated text parses into at most 10
  slides: the image calls of the request are one per slide, in the order of the slides
  and with the prompt of that slide; a failed call leaves a log line and nothing else.
  The handler hands exactly one note to the store; its metadata holds under
  \<^verbatim>\<open>slides\<close> the web paths of the slides whose call succeeded, in the order of the
  slides, and has no other entry than \<^verbatim>\<open>length\<close>, \<^verbatim>\<open>format\<close> and \<^verbatim>\<open>slides\<close>.
  When the store accepts the note, the request is answered with 200 and this note is the
  row added to the notes table. When the store refuses the note, the request is answered
  with 500 and the notes table is as before: the web paths are not persisted.
\<close>

theorem ppt_slides_in_order_failures_dropped:
  assumes prep: "prepareTransform env nb bound s = Inr (req, srcs, s2)"
    and gen: "tr_GenerateTransformation env req srcs = Inr content"
    and ty: "req_Type req = ''ppt''"
    and cap: "length (tr_ParsePPTSlides env content) \<le> 10"
  shows "(let slides = tr_ParsePPTSlides env content;
              note = buildNote nb req content
                      ((initialMetadata req)(''slides'' \<mapsto>
                          MStrings (successfulSlideURLs env slides 0 slides)));
              s' = snd (handleTransform env nb uid bound s)
          in filter isImageCall (newCalls s s') = slideImageCalls uid slides \<and>
             filter isSlideFailure (newCalls s s') = failedSlideLogs env slides 0 slides \<and>
             filter isCreateNote (newCalls s s') = [CallCreateNote note] \<and>
             note_Metadata note ''slides'' =
               Some (MStrings (successfulSlideURLs env slides 0 slides)) \<and>
             dom (note_Metadata note) = {''length'', ''format'', ''slides''} \<and>
             fst (handleTransform env nb uid bound s) =
               (case tr_CreateNote env of
                  None \<Rightarrow>
                    Response 200
                      (NoteJSON (note\<lparr>note_ID := tr_NoteID env,
                                      note_CreatedAt := tr_NoteTime env\<rparr>))
                | Some e \<Rightarrow> Response 500 (ErrorResponse ''Failed to save note'')) \<and>
             db_notes s' =
               (case tr_CreateNote env of
                  None \<Rightarrow>
                    note\<lparr>note_ID := tr_NoteID env, note_CreatedAt := tr_NoteTime env\<rparr>
                    # db_notes s
                | Some e \<Rightarrow> db_notes s))"
proof -
  let ?slides = "tr_ParsePPTSlides env content"
  have md: "secondaryMetadata env req content =
              (initialMetadata req)(''slides'' \<mapsto>
                 MStrings (successfulSlideURLs env ?slides 0 ?slides))"
    using cap by (simp add: secondaryMetadata_def ty)
  have tr: "secondaryTrace env uid req content = slideTrace env uid ?slides 0 ?slides"
    using cap by (simp add: secondaryTrace_def ty)
  have ni: "req_Type req \<noteq> ''insight''" by (simp add: ty)
  have dm: "insert ''slides'' (dom (initialMetadata req)) = {''length'', ''format'', ''slides''}"
    by (auto simp: dom_initialMetadata)
  show ?thesis
  proof (cases "tr_CreateNote env")
    case None
    show ?thesis
      by (simp add: Let_def handle_saved_plain [OF prep gen None ni] md tr newCalls_def
            requestTrace_quiet logTrace_quiet buildNote_def ty filter_slideTrace
            slideImageCalls_def dm None)
  next
    case (Some e)
    show ?thesis
      by (simp add: Let_def handle_not_saved [OF prep gen Some] md tr newCalls_def
            requestTrace_quiet buildNote_def ty Some filter_slideTrace slideImageCalls_def dm
            prepare_frame(1) [OF prep])
  qed
qed

theorem ppt_slides_in_order_failures_dropped_witness:
  "length (tr_ParsePPTSlides demoEnv ''TEXT'') = 3
   \<and> tr_GenerateImage demoEnv 1 (slidePrompt demoSlides (demoSlides ! 1)) =
       Inl ''quota exceeded''
   \<and> tr_CreateNote demoEnv = None
   \<and> status (fst (handleTransform demoEnv ''n1'' ''u1'' (Inr (demoRequest ''ppt''))
        demoServer)) = 200
   \<and> length (filter isImageCall (newCalls demoServer (snd (handleTransform demoEnv ''n1''
        ''u1'' (Inr (demoRequest ''ppt'')) demoServer)))) = 3
   \<and> filter isSlideFailure (newCalls demoServer (snd (handleTransform demoEnv ''n1''
        ''u1'' (Inr (demoRequest ''ppt'')) demoServer))) =
       [Errorf (FailedToGenerateSlide 2 ''quota exceeded'')]
   \<and> map (\<lambda>n. note_Metadata n ''slides'') (db_notes (snd (handleTransform demoEnv ''n1''
        ''u1'' (Inr (demoRequest ''ppt'')) demoServer))) =
       [Some (MStrings [''/api/files/a.png'', ''/api/files/c.png''])]
   \<and> map (\<lambda>n. note_Metadata n ''image_error'') (db_notes (snd (handleTransform demoEnv
        ''n1'' ''u1'' (Inr (demoRequest ''ppt'')) demoServer))) = [None]"
proof -
  obtain s2 where p: "prepareTransform demoEnv ''n1'' (Inr (demoRequest ''ppt''))
      demoServer = Inr (demoResolved ''ppt'', sourcesOf ''n1'' demoServer, s2)"
    using demo_prepared [of demoEnv "''ppt''", OF demoEnv_simps(1,2)] ..
  have cap: "length (tr_ParsePPTSlides demoEnv ''TEXT'') \<le> 10"
    by (simp add: demoEnv_simps demoSlides_def)
  have n: "length demoSlides = 3" by (simp add: demoSlides_def)
  show ?thesis
    using ppt_slides_in_order_failures_dropped
            [OF p demoEnv_simps(9) demoResolved_simps(1) cap, of "''u1''"]
    by (simp add: Let_def demoEnv_simps demoServer_simps demo_slide_urls slideImageCalls_def n
          buildNote_def initialMetadata_def)
qed

text \<open>
  C6 as stated fails: the generated text parses into 3 slides, the image call of slide 2
  fails and the store refuses the note. The three image calls are made and the slides 1
  and 3 have their web paths, but the request is answered with 500 and nothing is
  persisted: the notes table stays empty.
\<close>

theorem ppt_slides_not_saved_when_insert_fails:
  "length (tr_ParsePPTSlides demoEnvSlidesSaveFails ''TEXT'') = 3
   \<and> tr_GenerateImage demoEnvSlidesSaveFails 1 (slidePrompt demoSlides (demoSlides ! 1)) =
       Inl ''quota exceeded''
   \<and> successfulSlideURLs demoEnvSlidesSaveFails demoSlides 0 demoSlides =
       [''/api/files/a.png'', ''/api/files/c.png'']
   \<and> length (filter isImageCall (newCalls demoServer (snd (handleTransform
        demoEnvSlidesSaveFails ''n1'' ''u1'' (Inr (demoRequest ''ppt'')) demoServer)))) = 3
   \<and> fst (handleTransform demoEnvSlidesSaveFails ''n1'' ''u1''
        (Inr (demoRequest ''ppt'')) demoServer) =
       Response 500 (ErrorResponse ''Failed to save note'')
   \<and> db_notes (snd (handleTransform demoEnvSlidesSaveFails ''n1'' ''u1''
        (Inr (demoRequest ''ppt'')) demoServer)) = []"
proof -
  obtain s2 where p: "prepareTransform demoEnvSlidesSaveFails ''n1''
      (Inr (demoRequest ''ppt'')) demoServer =
        Inr (demoResolved ''ppt'', sourcesOf ''n1'' demoServer, s2)"
    using demo_prepared [of demoEnvSlidesSaveFails "''ppt''", OF demoSlidesSaveFails_simps(1,2)]
    ..
  have n: "length demoSlides = 3" by (simp add: demoSlides_def)
  show ?thesis
    by (simp add: handle_not_saved [OF p demoSlidesSaveFails_simps(3,4)]
          prepare_frame(1) [OF p] demoSlidesSaveFails_simps demoServer_simps newCalls_def
          requestTrace_quiet secondaryTrace_def demoResolved_simps filter_slideTrace n
          demo_slide_urls_save_fails)
qed

text \<open>
  C9, as the code has it. An insight request that succeeds (the text generation answers,
  the store accepts the note, the request is answered with 200) hands the generated text
  to the store as a new source of the same notebook; the calls of the request are those
  up to the text generation, the insert of the note, the activity entry and then the
  calls and log lines of the new source, and nothing else. When the store accepts the
  source, the listing of the notebook's sources afterwards is one longer and holds,
  besides the ids, names and contents it held before, the fresh id, the name of the
  insight report and the generated text; the text is handed to the ingestion for the same
  notebook under that name, as the last ingestion call of the request. When the
  ingestion succeeds its documents are appended to the index; when it fails the index is
  as it was after the index load and the failure is the last line of the log. When the
  store refuses the source, the request is answered with 200 all the same: the
  notebook's sources and the index are as they were after the index load, the text is
  not handed to the ingestion, and the refusal is the last line of the log. Every run
  whose source is accepted makes the notebook's sources one longer, so running the
  request again does not give the same state.
\<close>

theorem insight_becomes_new_source:
  assumes prep: "prepareTransform env nb bound s = Inr (req, srcs, s2)"
    and gen: "tr_GenerateTransformation env req srcs = Inr content"
    and ty: "req_Type req = ''insight''"
    and save: "tr_CreateNote env = None"
  shows "(let s' = snd (handleTransform env nb uid bound s);
              note = buildNote nb req content (initialMetadata req);
              loaded = vectorStore (ensureVectorIndex (tr_load env) nb s)
          in status (fst (handleTransform env nb uid bound s)) = 200 \<and>
             newCalls s s' =
               requestTrace env nb uid s req srcs
               @ CallCreateNote note # logTrace env uid
               @ insightTrace env s nb content \<and>
             (tr_CreateSource env = None \<longrightarrow>
                length (sourcesOf nb s') = Suc (length (sourcesOf nb s)) \<and>
                mset (map src_ID (sourcesOf nb s')) =
                  add_mset (tr_SourceID env) (mset (map src_ID (sourcesOf nb s))) \<and>
                mset (map src_Name (sourcesOf nb s')) =
                  add_mset insight_source_name (mset (map src_Name (sourcesOf nb s))) \<and>
                mset (map src_Content (sourcesOf nb s')) =
                  add_mset content (mset (map src_Content (sourcesOf nb s))) \<and>
                filter (isIngestFor nb) (newCalls s s') =
                  filter (isIngestFor nb) (indexLoadTrace (tr_load env) nb s)
                  @ [CallIngestText nb insight_source_name content] \<and>
                (tr_IngestText env = None \<longrightarrow>
                   vectorStore s' = loaded @ insightDocuments s nb content) \<and>
                (\<forall>e. tr_IngestText env = Some e \<longrightarrow>
                   vectorStore s' = loaded \<and>
                   last (newCalls s s') = Errorf (FailedToIngestInsightText e))) \<and>
             (\<forall>err. tr_CreateSource env = Some err \<longrightarrow>
                sourcesOf nb s' = sourcesOf nb s \<and>
                vectorStore s' = loaded \<and>
                filter (isIngestFor nb) (newCalls s s') =
                  filter (isIngestFor nb) (indexLoadTrace (tr_load env) nb s) \<and>
                last (newCalls s s') = Errorf (FailedToCreateInsightSource err)))"
proof -
  let ?note = "buildNote nb req content (initialMetadata req)"
  let ?mid = "s2\<lparr>db_notes := ?note\<lparr>note_ID := tr_NoteID env,
                                       note_CreatedAt := tr_NoteTime env\<rparr>
                         # db_notes s,
            calls := calls s @ requestTrace env nb uid s req srcs
              @ CallCreateNote ?note # logTrace env uid\<rparr>"
  let ?end = "injectInsight env nb content ?mid"
  note h = handle_saved_insight [OF prep gen save ty, of uid]
  have st: "status (fst (handleTransform env nb uid bound s)) = 200" by (simp add: h)
  have e: "snd (handleTransform env nb uid bound s) = ?end" by (simp add: h)
  have src: "sourcesOf nb ?mid = sourcesOf nb s"
    by (simp add: sourcesOf_def prepare_frame(2) [OF prep])
  have spl: "insightDocuments ?mid nb content = insightDocuments s nb content"
    by (simp add: insightDocuments_def prepare_frame(3) [OF prep])
  have it: "insightTrace env ?mid nb content = insightTrace env s nb content"
    by (simp add: insightTrace_def prepare_frame(3) [OF prep] split: option.splits)
  have vs: "vectorStore ?end =
              vectorStore (ensureVectorIndex (tr_load env) nb s)
              @ (if tr_CreateSource env = None \<and> tr_IngestText env = None
                 then insightDocuments s nb content else [])"
    by (simp add: injectInsight_frame(3) spl prepare_frame(5) [OF prep])
  have nc: "newCalls s ?end =
              requestTrace env nb uid s req srcs
              @ CallCreateNote ?note # logTrace env uid
              @ insightTrace env s nb content"
    by (simp add: newCalls_def injectInsight_frame(2) it)
  have ne: "insightTrace env s nb content \<noteq> []" by (simp add: insightTrace_def)
  have ls: "last (newCalls s ?end) = last (insightTrace env s nb content)"
    by (simp add: nc ne)
  have ing: "filter (isIngestFor nb) (newCalls s ?end) =
               filter (isIngestFor nb) (indexLoadTrace (tr_load env) nb s)
               @ (if tr_CreateSource env = None
                  then [CallIngestText nb insight_source_name content] else [])"
    by (simp add: nc requestTrace_quiet logTrace_quiet filter_insightTrace)
  show ?thesis
  proof (cases "tr_CreateSource env")
    case None
    note grow = injectInsight_created [OF None, of nb content ?mid, unfolded src]
    show ?thesis
      unfolding Let_def e
      by (simp add: st nc [symmetric] ing vs grow None ls last_insightTrace(2) [OF None]
            del: mset_map)
  next
    case (Some err)
    have same: "sourcesOf nb ?end = sourcesOf nb s"
      by (simp add: sourcesOf_def injectInsight_not_created [OF Some]
            prepare_frame(2) [OF prep])
    show ?thesis
      unfolding Let_def e
      by (simp add: st nc [symmetric] ing vs same Some ls last_insightTrace(1) [OF Some])
  qed
qed

theorem insight_becomes_new_source_witness:
  "tr_CreateNote demoEnv = None \<and> tr_CreateSource demoEnv = None
   \<and> tr_IngestText demoEnv = None
   \<and> status (fst (handleTransform demoEnv ''n1'' ''u1'' (Inr (demoRequest ''insight''))
        demoServer)) = 200
   \<and> length (sourcesOf ''n1'' demoServer) = 3
   \<and> length (sourcesOf ''n1'' (snd (handleTransform demoEnv ''n1'' ''u1''
        (Inr (demoRequest ''insight'')) demoServer))) = 4
   \<and> mset (map src_Content (sourcesOf ''n1'' (snd (handleTransform demoEnv ''n1'' ''u1''
        (Inr (demoRequest ''insight'')) demoServer)))) = {#''TEXT'', ''gamma'', [], ''alpha''#}
   \<and> map doc_Text (vectorStore (snd (handleTransform demoEnv ''n1'' ''u1''
        (Inr (demoRequest ''insight'')) demoServer))) = [''gamma'', ''alpha'', ''TEXT'']"
proof -
  obtain s2 where p: "prepareTransform demoEnv ''n1'' (Inr (demoRequest ''insight''))
      demoServer = Inr (demoResolved ''insight'', sourcesOf ''n1'' demoServer, s2)"
    using demo_prepared [of demoEnv "''insight''", OF demoEnv_simps(1,2)] ..
  show ?thesis
    using insight_becomes_new_source
            [OF p demoEnv_simps(9) demoResolved_simps(1) demoEnv_simps(3), of "''u1''"]
    by (simp add: Let_def demoEnv_simps demo_index_loaded demoLoaded_fields
          insightDocuments_def demoServer_simps sourcesOf_demo demoSources_def)
qed

text \<open>
  C9 as stated fails: an insight request succeeds (the note is stored, the answer is 200)
  while the store refuses the new source. The notebook has the three sources it had, and
  the index holds the documents of the index load only: the generated text is neither a
  source nor ingested.
\<close>

theorem insight_succeeds_without_new_source:
  "status (fst (handleTransform demoEnvCreateSourceFails ''n1'' ''u1''
     (Inr (demoRequest ''insight'')) demoServer)) = 200
   \<and> map note_Type (db_notes (snd (handleTransform demoEnvCreateSourceFails ''n1'' ''u1''
        (Inr (demoRequest ''insight'')) demoServer))) = [''insight'']
   \<and> map src_ID (sourcesOf ''n1'' demoServer) = [''s3'', ''s2'', ''s1'']
   \<and> map src_ID (sourcesOf ''n1'' (snd (handleTransform demoEnvCreateSourceFails ''n1'' ''u1''
        (Inr (demoRequest ''insight'')) demoServer))) = [''s3'', ''s2'', ''s1'']
   \<and> map doc_Text (vectorStore (snd (handleTransform demoEnvCreateSourceFails ''n1'' ''u1''
        (Inr (demoRequest ''insight'')) demoServer))) = [''gamma'', ''alpha'']"
proof -
  obtain s2 where p: "prepareTransform demoEnvCreateSourceFails ''n1''
      (Inr (demoRequest ''insight'')) demoServer =
        Inr (demoResolved ''insight'', sourcesOf ''n1'' demoServer, s2)"
    using demo_prepared [of demoEnvCreateSourceFails "''insight''", OF demoFailing_simps(12,13)]
    ..
  let ?note = "buildNote ''n1'' (demoResolved ''insight'') ''TEXT''
                 (initialMetadata (demoResolved ''insight''))"
  let ?mid = "s2\<lparr>db_notes := ?note\<lparr>note_ID := tr_NoteID demoEnvCreateSourceFails,
                                       note_CreatedAt := tr_NoteTime demoEnvCreateSourceFails\<rparr>
                         # db_notes demoServer,
            calls := calls demoServer
              @ requestTrace demoEnvCreateSourceFails ''n1'' ''u1'' demoServer
                  (demoResolved ''insight'') (sourcesOf ''n1'' demoServer)
              @ CallCreateNote ?note # logTrace demoEnvCreateSourceFails ''u1''\<rparr>"
  have h: "handleTransform demoEnvCreateSourceFails ''n1'' ''u1''
             (Inr (demoRequest ''insight'')) demoServer =
           (Response 200
              (NoteJSON (?note\<lparr>note_ID := tr_NoteID demoEnvCreateSourceFails,
                                note_CreatedAt := tr_NoteTime demoEnvCreateSourceFails\<rparr>)),
            injectInsight demoEnvCreateSourceFails ''n1'' ''TEXT'' ?mid)"
    by (rule handle_saved_insight
               [OF p demoFailing_simps(14) demoFailing_simps(15) demoResolved_simps(1)])
  have src: "map src_ID (sourcesOf ''n1'' demoServer) = [''s3'', ''s2'', ''s1'']"
    by (simp add: sourcesOf_demo demoSources_def)
  have same: "sourcesOf ''n1'' (injectInsight demoEnvCreateSourceFails ''n1'' ''TEXT'' ?mid) =
                sourcesOf ''n1'' demoServer"
    by (simp add: injectInsight_not_created [OF demoFailing_simps(16)] sourcesOf_def
          prepare_frame(2) [OF p])
  have idx: "vectorStore (injectInsight demoEnvCreateSourceFails ''n1'' ''TEXT'' ?mid) =
               vectorStore demoLoaded"
    by (simp add: injectInsight_frame(3) demoFailing_simps(16)
          prepare_frame(5) [OF p] demoFailing_simps(17) demo_index_loaded)
  have nts: "map note_Type
               (db_notes (injectInsight demoEnvCreateSourceFails ''n1'' ''TEXT'' ?mid)) =
             [''insight'']"
    by (simp add: injectInsight_frame(1) buildNote_def demoResolved_simps demoServer_simps)
  show ?thesis
    unfolding h by (simp add: same idx nts src demoLoaded_fields)
qed

text \<open>
  C10. An infograph request whose text generation succeeds hands exactly one note to the
  store, and that note is fixed by the notebook, the request and the outcome of the image
  call alone: its text content is empty whether the image call succeeds or fails; when
  the call succeeds the metadata holds the web path of the image under
  \<^verbatim>\<open>image_url\<close> and no \<^verbatim>\<open>image_error\<close>, when it fails the metadata holds the
  error under \<^verbatim>\<open>image_error\<close> and no \<^verbatim>\<open>image_url\<close>. The generated text reaches
  the image prompt and no field of the note. The note that is persisted is this note:
  when the store accepts it, it is the row added to the notes table, and otherwise the
  notes table is as before.
\<close>

theorem infograph_note_never_holds_text:
  assumes prep: "prepareTransform env nb bound s = Inr (req, srcs, s2)"
    and gen: "tr_GenerateTransformation env req srcs = Inr content"
    and ty: "req_Type req = ''infograph''"
  shows "(let outcome = tr_GenerateImage env 0 (infographPrompt content);
              note = infographNote nb req outcome;
              s' = snd (handleTransform env nb uid bound s)
          in filter isCreateNote (newCalls s s') = [CallCreateNote note] \<and>
             filter isImageCall (newCalls s s') =
               [CallGenerateImage image_model (content @ newline @ newline
                  @ use_chinese_notice) uid] \<and>
             note_Content note = [] \<and>
             (case outcome of
                Inr imagePath \<Rightarrow>
                  note_Metadata note ''image_url'' = Some (MString (web_path imagePath)) \<and>
                  note_Metadata note ''image_error'' = None
              | Inl err \<Rightarrow>
                  note_Metadata note ''image_error'' = Some (MString err) \<and>
                  note_Metadata note ''image_url'' = None) \<and>
             db_notes s' =
               (case tr_CreateNote env of
                  None \<Rightarrow>
                    note\<lparr>note_ID := tr_NoteID env, note_CreatedAt := tr_NoteTime env\<rparr>
                    # db_notes s
                | Some e \<Rightarrow> db_notes s))"
proof -
  let ?out = "tr_GenerateImage env 0 (infographPrompt content)"
  have nt: "buildNote nb req content (secondaryMetadata env req content) =
                infographNote nb req ?out"
    by (cases ?out) (simp_all add: buildNote_def secondaryMetadata_def ty infographNote_def)
  have tr: "filter isCreateNote (secondaryTrace env uid req content) = []"
           "filter isImageCall (secondaryTrace env uid req content) =
              [CallGenerateImage image_model (content @ newline @ newline
                  @ use_chinese_notice) uid]"
    by (simp_all add: secondaryTrace_def ty infographPrompt_def split: sum.splits)
  have ni: "req_Type req \<noteq> ''insight''" by (simp add: ty)
  have meta: "(case ?out of
                Inr imagePath \<Rightarrow>
                  note_Metadata (infographNote nb req ?out) ''image_url'' =
                    Some (MString (web_path imagePath)) \<and>
                  note_Metadata (infographNote nb req ?out) ''image_error'' = None
              | Inl err \<Rightarrow>
                  note_Metadata (infographNote nb req ?out) ''image_error'' =
                    Some (MString err) \<and>
                  note_Metadata (infographNote nb req ?out) ''image_url'' = None)"
    by (cases ?out) (simp_all add: infographNote_def initialMetadata_def)
  have empty: "note_Content (infographNote nb req ?out) = []"
    by (simp add: infographNote_def)
  show ?thesis
  proof (cases "tr_CreateNote env")
    case None
    show ?thesis using meta empty
      by (simp add: Let_def handle_saved_plain [OF prep gen None ni] nt tr newCalls_def
            requestTrace_quiet logTrace_quiet None)
  next
    case (Some e)
    show ?thesis using meta empty
      by (simp add: Let_def handle_not_saved [OF prep gen Some] nt tr newCalls_def
            requestTrace_quiet Some prepare_frame(1) [OF prep])
  qed
qed

theorem infograph_note_never_holds_text_witness:
  "tr_CreateNote demoEnv = None
   \<and> tr_GenerateImage demoEnv 0 (infographPrompt ''TEXT'') = Inr ''data/uploads/a.png''
   \<and> map note_Content (db_notes (snd (handleTransform demoEnv ''n1'' ''u1''
        (Inr (demoRequest ''infograph'')) demoServer))) = [[]]
   \<and> map (\<lambda>n. note_Metadata n ''image_url'') (db_notes (snd (handleTransform demoEnv ''n1''
        ''u1'' (Inr (demoRequest ''infograph'')) demoServer))) =
       [Some (MString ''/api/files/a.png'')]
   \<and> map (\<lambda>n. note_Metadata n ''image_error'') (db_notes (snd (handleTransform demoEnv
        ''n1'' ''u1'' (Inr (demoRequest ''infograph'')) demoServer))) = [None]"
proof -
  obtain s2 where p: "prepareTransform demoEnv ''n1'' (Inr (demoRequest ''infograph''))
      demoServer = Inr (demoResolved ''infograph'', sourcesOf ''n1'' demoServer, s2)"
    using demo_prepared [of demoEnv "''infograph''", OF demoEnv_simps(1,2)] ..
  show ?thesis
    using infograph_note_never_holds_text
            [OF p demoEnv_simps(9) demoResolved_simps(1), of "''u1''"]
    by (simp add: Let_def demoEnv_simps demoServer_simps web_path_demo infographNote_def
          initialMetadata_def)
qed

end
